theory Spec2Isabelle
  imports Main "HOL-Library.AList"
begin

section \<open>The connection engine of \<^verbatim>\<open>_examples/advanced/ws/conn.go\<close>\<close>

text \<open>
  Every function below is the sequential reading of one call into \<^verbatim>\<open>Conn\<close>, made by
  one goroutine. What the call does to the outside (the socket, the event handlers, the
  channels of pending asks) is appended to a trace kept in the connection state. What the
  outside does to the call (the clock, the result of a socket write, which branch of a
  \<^verbatim>\<open>select\<close> becomes ready) is given as an argument. A call that never returns
  (a send on a channel nobody receives from, a second acquisition of a mutex the caller
  already holds, a polling loop whose flag only another goroutine can set) has the
  value \<open>None\<close>.
\<close>

subsection \<open>Data\<close>

type_synonym bytes = string

text \<open>
  The error values the file produces or inspects. \<^verbatim>\<open>CloseError{Code, error}\<close> is built
  in \<^verbatim>\<open>Ask\<close>; errors returned by handlers, by the socket and by a context are arbitrary
  values (\<open>OtherError\<close>, \<open>Canceled\<close>, \<open>DeadlineExceeded\<close>).
\<close>

datatype error =
    ErrBadNamespace
  | ErrWrite
  | DeadlineExceeded
  | Canceled
  | CloseError int error
  | OtherError string

record message =
  Namespace :: string
  Room :: string
  Event :: string
  Body :: bytes
  Err :: "error option"
  wait :: string
  IsForced :: bool
  IsLocal :: bool
  isNoOp :: bool
  isInvalid :: bool

text \<open>The zero value \<^verbatim>\<open>Message{}\<close>.\<close>

definition Message0 :: message where
  "Message0 = \<lparr>Namespace = [], Room = [], Event = [], Body = [], Err = None, wait = [],
     IsForced = False, IsLocal = False, isNoOp = False, isInvalid = False\<rparr>"

text \<open>
  Modelled from the spec: the reserved event names are declared in a file that is not
  among the sources. The spec lists them as seven distinct reserved names; only the
  names used by \<^verbatim>\<open>conn.go\<close> are defined here, and only their being pairwise different
  is used.
\<close>

definition OnNamespaceConnect :: string where "OnNamespaceConnect = ''_OnNamespaceConnect''"
definition OnNamespaceConnected :: string where "OnNamespaceConnected = ''_OnNamespaceConnected''"
definition OnNamespaceDisconnect :: string where "OnNamespaceDisconnect = ''_OnNamespaceDisconnect''"
definition OnRoomJoin :: string where "OnRoomJoin = ''_OnRoomJoin''"
definition OnRoomLeave :: string where "OnRoomLeave = ''_OnRoomLeave''"
definition OnRoomLeft :: string where "OnRoomLeft = ''_OnRoomLeft''"

text \<open>
  Modelled from the spec: the four predicates of \<^verbatim>\<open>Message\<close> that \<^verbatim>\<open>Write\<close> calls are
  declared outside the sources; the spec has them as predicates over \<open>Event\<close>, each
  named after the reserved event it recognises.
\<close>

definition isConnect :: "message \<Rightarrow> bool" where
  "isConnect m = (Event m = OnNamespaceConnect)"

definition isDisconnect :: "message \<Rightarrow> bool" where
  "isDisconnect m = (Event m = OnNamespaceDisconnect)"

definition isRoomJoin :: "message \<Rightarrow> bool" where
  "isRoomJoin m = (Event m = OnRoomJoin)"

definition isRoomLeft :: "message \<Rightarrow> bool" where
  "isRoomLeft m = (Event m = OnRoomLeft)"

text \<open>
  Modelled from the spec: an event table (\<^verbatim>\<open>Events\<close>) is declared outside the sources;
  the spec gives it the surface \<^verbatim>\<open>fireEvent\<close>, from a message to the handler's error
  (\<open>None\<close> for \<^verbatim>\<open>nil\<close>). A handler is taken to be a function of the message it is fired with.
\<close>

type_synonym events = "message \<Rightarrow> error option"

text \<open>
  \<^verbatim>\<open>NSConn\<close>: the fields \<^verbatim>\<open>conn.go\<close> reads. Of the rooms map only the key set is read
  (\<^verbatim>\<open>_, ok := ns.rooms[msg.Room]\<close>).
\<close>

record nsconn =
  namespace :: string
  events :: events
  rooms :: "string set"

text \<open>
  Modelled from the spec: \<^verbatim>\<open>newNSConn\<close> is declared outside the sources; an NSConn is
  created by the connect exchange for a namespace and its event table, with no room joined.
\<close>

definition newNSConn :: "string \<Rightarrow> events \<Rightarrow> nsconn" where
  "newNSConn ns ev = \<lparr>namespace = ns, events = ev, rooms = {}\<rparr>"

text \<open>What a call does to the outside, in the order it does it.\<close>

datatype effect =
    SockWrite bytes              \<comment> \<open>\<^verbatim>\<open>c.socket.WriteText(body, c.writeTimeout)\<close> was called\<close>
  | Fired string message         \<comment> \<open>\<^verbatim>\<open>ns.events.fireEvent(ns, msg)\<close>, with \<^verbatim>\<open>ns.namespace\<close>\<close>
  | ChanSend nat message         \<comment> \<open>\<^verbatim>\<open>ch <- msg\<close> was received\<close>
  | CloseChClosed                \<comment> \<open>\<^verbatim>\<open>close(c.closeCh)\<close>\<close>
  | ServerNotified               \<comment> \<open>the goroutine sending \<^verbatim>\<open>c\<close> on \<^verbatim>\<open>c.server.disconnect\<close> was started\<close>
  | NetConnClosed                \<comment> \<open>\<^verbatim>\<open>c.socket.NetConn().Close()\<close>\<close>

datatype Server = Server

text \<open>
  \<^verbatim>\<open>Conn\<close>. \<open>connectedNamespaces\<close> is an association list, so that a \<^verbatim>\<open>range\<close> over the
  map has an order: the order of the list, which is arbitrary. A channel made by
  \<^verbatim>\<open>make(chan Message)\<close> is the number of channels made before it (\<open>chans\<close>).
  \<open>connectedNamespacesMutex\<close> is true while the running call holds the write lock;
  \<open>awaiting\<close> is the set of channels on which an \<^verbatim>\<open>Ask\<close> of another goroutine is blocked
  in its \<^verbatim>\<open>select\<close>. The two timeouts are only handed to the socket and are left out.
\<close>

record conn =
  cid :: string
  server :: "Server option"
  namespaces :: "string \<rightharpoonup> events"
  acknowledged :: nat
  connectedNamespaces :: "(string \<times> nsconn) list"
  connectedNamespacesMutex :: bool
  waitingMessages :: "string \<rightharpoonup> nat"
  closed :: nat
  chans :: nat
  awaiting :: "nat set"
  trace :: "effect list"

text \<open>
  The collaborators of the connection that are not in the sources: the wire format, the
  socket (the error of a write may depend on what happened before), the two classifiers
  of errors, and the two room handlers of \<^verbatim>\<open>NSConn\<close> that \<^verbatim>\<open>handleMessage\<close> delegates to.
\<close>

record world =
  serializeMessage :: "message \<Rightarrow> bytes"
  deserializeMessage :: "bytes \<Rightarrow> message"
  WriteText :: "effect list \<Rightarrow> bytes \<Rightarrow> error option"
  IsCloseError :: "error \<Rightarrow> bool"
  isManualCloseError :: "error \<Rightarrow> bool"
  replyRoomJoin :: "nsconn \<Rightarrow> message \<Rightarrow> conn \<Rightarrow> conn option"
  replyRoomLeave :: "nsconn \<Rightarrow> message \<Rightarrow> conn \<Rightarrow> conn option"

text \<open>\<^verbatim>\<open>context.Context\<close>: its deadline, in nanoseconds, if it has one.\<close>

record Context =
  deadline :: "int option"

text \<open>Which case of the \<^verbatim>\<open>select\<close> in \<^verbatim>\<open>Ask\<close> becomes ready, if any.\<close>

datatype selected = CtxDone error | Received message | NeverReady

text \<open>
  What one call of \<^verbatim>\<open>Ask\<close> meets: the two readings of the clock (nanoseconds) and the
  outcome of its \<^verbatim>\<open>select\<close>.
\<close>

record ask_env =
  now :: int
  now_deadline :: int
  ready :: selected

subsection \<open>Small methods\<close>

definition newConn :: "Server option \<Rightarrow> (string \<rightharpoonup> events) \<Rightarrow> conn" where
  "newConn srv nss = \<lparr>cid = [], server = srv, namespaces = nss, acknowledged = 0,
     connectedNamespaces = [], connectedNamespacesMutex = False, waitingMessages = Map.empty,
     closed = 0, chans = 0, awaiting = {}, trace = []\<rparr>"

definition IsClient :: "conn \<Rightarrow> bool" where
  "IsClient c = (server c = None)"

definition ackBinary :: bytes where "ackBinary = ''ack''"
definition ackOKBinary :: bytes where "ackOKBinary = ''ack_ok''"

definition isAcknowledged :: "conn \<Rightarrow> bool" where
  "isAcknowledged c = (acknowledged c > 0)"

definition IsClosed :: "conn \<Rightarrow> bool" where
  "IsClosed c = (closed c > 0)"

definition HasPrefix :: "bytes \<Rightarrow> bytes \<Rightarrow> bool" where
  "HasPrefix s p = (take (length p) s = p)"

definition fireEvent :: "nsconn \<Rightarrow> message \<Rightarrow> conn \<Rightarrow> error option \<times> conn" where
  "fireEvent ns msg c = (events ns msg, c\<lparr>trace := trace c @ [Fired (namespace ns) msg]\<rparr>)"

text \<open>
  \<^verbatim>\<open>Namespace\<close> takes the read lock: it waits for ever when the caller itself holds the
  write lock. The inner \<open>None\<close> is the \<^verbatim>\<open>nil\<close> pointer.
\<close>

definition Namespace_conn :: "conn \<Rightarrow> string \<Rightarrow> nsconn option option" where
  "Namespace_conn c ns =
     (if connectedNamespacesMutex c then None else Some (map_of (connectedNamespaces c) ns))"

subsection \<open>Close\<close>

definition disconnectMsg_forced :: message where
  "disconnectMsg_forced = Message0\<lparr>Event := OnNamespaceDisconnect, IsForced := True, IsLocal := True\<rparr>"

text \<open>The \<^verbatim>\<open>range\<close> over the connected namespaces in \<^verbatim>\<open>Close\<close>; the handler's error is dropped.\<close>

fun Close_range :: "(string \<times> nsconn) list \<Rightarrow> conn \<Rightarrow> conn" where
  "Close_range [] c = c"
| "Close_range ((k, ns) # rest) c =
     (let c1 = snd (fireEvent ns (disconnectMsg_forced\<lparr>Namespace := namespace ns\<rparr>) c)
      in Close_range rest (c1\<lparr>connectedNamespaces := AList.delete k (connectedNamespaces c1)\<rparr>))"

text \<open>
  The second loop of \<^verbatim>\<open>Close\<close> deletes every key of \<open>waitingMessages\<close> and does nothing
  else, so it is written as the empty map.
\<close>

definition Close :: "conn \<Rightarrow> conn option" where
  "Close c =
     (if closed c = 0 then
        let c1 = c\<lparr>closed := 1, trace := trace c @ [CloseChClosed]\<rparr> in
        if connectedNamespacesMutex c1 then None
        else
          let c2 = Close_range (connectedNamespaces c1) c1;
              c3 = c2\<lparr>waitingMessages := Map.empty, acknowledged := 0\<rparr>
          in Some (c3\<lparr>trace := trace c3 @ (if IsClient c3 then [] else [ServerNotified])
                                        @ [NetConnClosed]\<rparr>)
      else Some c)"

subsection \<open>Write\<close>

text \<open>Whether the checks of \<^verbatim>\<open>Write\<close> before the socket let the message through.\<close>

definition Write_allowed :: "message \<Rightarrow> conn \<Rightarrow> bool option" where
  "Write_allowed msg c =
     (if \<not> isConnect msg \<and> \<not> isDisconnect msg then
        (case Namespace_conn c (Namespace msg) of
           None \<Rightarrow> None
         | Some None \<Rightarrow> Some False
         | Some (Some ns) \<Rightarrow>
             Some (\<not> (Room msg \<noteq> [] \<and> \<not> isRoomJoin msg \<and> \<not> isRoomLeft msg
                      \<and> Room msg \<notin> rooms ns)))
      else Some True)"

definition Write :: "world \<Rightarrow> message \<Rightarrow> conn \<Rightarrow> (bool \<times> conn) option" where
  "Write w msg c =
     (if IsClosed c then Some (False, c)
      else
        (case Write_allowed msg c of
           None \<Rightarrow> None
         | Some False \<Rightarrow> Some (False, c)
         | Some True \<Rightarrow>
             let b = serializeMessage w msg;
                 c1 = c\<lparr>trace := trace c @ [SockWrite b]\<rparr>
             in (case WriteText w (trace c) b of
                   None \<Rightarrow> Some (True, c1)
                 | Some err \<Rightarrow>
                     if IsCloseError w err
                     then (case Close c1 of None \<Rightarrow> None | Some c2 \<Rightarrow> Some (False, c2))
                     else Some (False, c1))))"

subsection \<open>Ask\<close>

text \<open>\<^verbatim>\<open>strconv.FormatInt(now, 10)\<close>.\<close>

fun digits :: "nat \<Rightarrow> string" where
  "digits n = (if n < 10 then [''0123456789'' ! n]
               else digits (n div 10) @ [''0123456789'' ! (n mod 10)])"

declare digits.simps [simp del]

definition FormatInt :: "int \<Rightarrow> string" where
  "FormatInt i = (if i < 0 then CHR ''-'' # digits (nat (- i)) else digits (nat i))"

definition waitToken :: "conn \<Rightarrow> int \<Rightarrow> string" where
  "waitToken c t = (if IsClient c then ''client_'' @ FormatInt t else FormatInt t)"

text \<open>
  \<^verbatim>\<open>deadline.Before(time.Now().Add(-1 * time.Second))\<close> for a context that is not \<^verbatim>\<open>nil\<close> and
  has a deadline.
\<close>

definition deadline_passed :: "Context option \<Rightarrow> int \<Rightarrow> bool" where
  "deadline_passed ctx t =
     (case ctx of
        None \<Rightarrow> False
      | Some cx \<Rightarrow> (case deadline cx of None \<Rightarrow> False | Some d \<Rightarrow> d < t - 1000000000))"

text \<open>
  The \<^verbatim>\<open>select\<close> at the end of \<^verbatim>\<open>Ask\<close>. The \<^verbatim>\<open>Done\<close> channel of \<^verbatim>\<open>context.TODO()\<close>, which
  replaces a \<^verbatim>\<open>nil\<close> context, is never ready.
\<close>

definition Ask_select ::
  "Context option \<Rightarrow> selected \<Rightarrow> conn \<Rightarrow> ((message \<times> error option) \<times> conn) option" where
  "Ask_select ctx s c =
     (case s of
        CtxDone e \<Rightarrow> (if ctx = None then None else Some ((Message0, Some e), c))
      | Received receive \<Rightarrow>
          Some ((receive, Err receive),
                c\<lparr>waitingMessages := (waitingMessages c)(wait receive := None)\<rparr>)
      | NeverReady \<Rightarrow> None)"

definition Ask ::
  "world \<Rightarrow> ask_env \<Rightarrow> Context option \<Rightarrow> message \<Rightarrow> conn
     \<Rightarrow> ((message \<times> error option) \<times> conn) option" where
  "Ask w env ctx msg c =
     (if IsClosed c then Some ((msg, Some (CloseError (- 1) ErrWrite)), c)
      else
        let msg1 = msg\<lparr>wait := waitToken c (now env)\<rparr> in
        if deadline_passed ctx (now_deadline env) then Some ((Message0, Some DeadlineExceeded), c)
        else
          let ch = chans c;
              c1 = c\<lparr>chans := Suc (chans c),
                     waitingMessages := (waitingMessages c)(wait msg1 \<mapsto> ch)\<rparr>
          in (case Write w msg1 c1 of
                None \<Rightarrow> None
              | Some (False, c2) \<Rightarrow> Some ((Message0, Some ErrWrite), c2)
              | Some (True, c2) \<Rightarrow> Ask_select ctx (ready env) c2))"

subsection \<open>Dispatch of an inbound message\<close>

definition tryNamespace :: "world \<Rightarrow> conn \<Rightarrow> message \<Rightarrow> (nsconn option \<times> conn) option" where
  "tryNamespace w c msg =
     (case Namespace_conn c (Namespace msg) of
        None \<Rightarrow> None
      | Some None \<Rightarrow>
          (case Write w (msg\<lparr>Err := Some ErrBadNamespace\<rparr>) c of
             None \<Rightarrow> None
           | Some (_, c1) \<Rightarrow> Some (None, c1))
      | Some (Some ns) \<Rightarrow> Some (Some ns, c))"

definition replyConnect :: "world \<Rightarrow> conn \<Rightarrow> message \<Rightarrow> conn option" where
  "replyConnect w c msg =
     (if wait msg = [] \<or> isNoOp msg then Some c
      else
        (case Namespace_conn c (Namespace msg) of
           None \<Rightarrow> None
         | Some (Some ns) \<Rightarrow> map_option snd (Write w (msg\<lparr>isNoOp := True\<rparr>) c)
         | Some None \<Rightarrow>
             (case namespaces c (Namespace msg) of
                None \<Rightarrow> map_option snd (Write w (msg\<lparr>Err := Some ErrBadNamespace\<rparr>) c)
              | Some evs \<Rightarrow>
                  let ns = newNSConn (Namespace msg) evs;
                      (err, c1) = fireEvent ns msg c
                  in (case err of
                        Some e \<Rightarrow> map_option snd (Write w (msg\<lparr>Err := Some e\<rparr>) c1)
                      | None \<Rightarrow>
                          if connectedNamespacesMutex c1 then None
                          else
                            let c2 = c1\<lparr>connectedNamespaces :=
                                         AList.update (Namespace msg) ns (connectedNamespaces c1)\<rparr>
                            in (case Write w msg c2 of
                                  None \<Rightarrow> None
                                | Some (_, c3) \<Rightarrow>
                                    Some (snd (fireEvent ns
                                      (msg\<lparr>Event := OnNamespaceConnected\<rparr>) c3)))))))"

definition replyDisconnect :: "world \<Rightarrow> conn \<Rightarrow> message \<Rightarrow> conn option" where
  "replyDisconnect w c msg =
     (if wait msg = [] \<or> isNoOp msg then Some c
      else
        (case Namespace_conn c (Namespace msg) of
           None \<Rightarrow> None
         | Some None \<Rightarrow> Some c
         | Some (Some ns) \<Rightarrow>
             if IsClient c then
               (case Write w msg
                       (c\<lparr>connectedNamespaces :=
                            AList.delete (Namespace msg) (connectedNamespaces c)\<rparr>) of
                  None \<Rightarrow> None
                | Some (_, c1) \<Rightarrow> Some (snd (fireEvent ns msg c1)))
             else
               let (err, c1) = fireEvent ns msg c
               in (case err of
                     Some e \<Rightarrow> map_option snd (Write w (msg\<lparr>Err := Some e\<rparr>) c1)
                   | None \<Rightarrow>
                       map_option snd
                         (Write w msg
                            (c1\<lparr>connectedNamespaces :=
                                  AList.delete (Namespace msg) (connectedNamespaces c1)\<rparr>)))))"

text \<open>
  The send \<^verbatim>\<open>ch <- msg\<close> is on a channel without buffer: it completes when the \<^verbatim>\<open>Ask\<close> that
  made the channel is receiving from it, and never otherwise, since no one else has the
  channel.
\<close>

definition chan_send :: "nat \<Rightarrow> message \<Rightarrow> conn \<Rightarrow> conn option" where
  "chan_send ch msg c =
     (if ch \<in> awaiting c
      then Some (c\<lparr>awaiting := awaiting c - {ch}, trace := trace c @ [ChanSend ch msg]\<rparr>)
      else None)"

text \<open>The rest of \<^verbatim>\<open>handleMessage\<close>, after the look-up of the wait token: the \<^verbatim>\<open>switch\<close>.\<close>

definition dispatch :: "world \<Rightarrow> conn \<Rightarrow> message \<Rightarrow> (bool \<times> conn) option" where
  "dispatch w c msg =
     (if Event msg = OnNamespaceConnect then map_option (Pair True) (replyConnect w c msg)
      else if Event msg = OnNamespaceDisconnect then
        map_option (Pair True) (replyDisconnect w c msg)
      else if Event msg = OnRoomJoin then
        (case tryNamespace w c msg of
           None \<Rightarrow> None
         | Some (None, c1) \<Rightarrow> Some (True, c1)
         | Some (Some ns, c1) \<Rightarrow> map_option (Pair True) (replyRoomJoin w ns msg c1))
      else if Event msg = OnRoomLeave then
        (case tryNamespace w c msg of
           None \<Rightarrow> None
         | Some (None, c1) \<Rightarrow> Some (True, c1)
         | Some (Some ns, c1) \<Rightarrow> map_option (Pair True) (replyRoomLeave w ns msg c1))
      else
        (case tryNamespace w c msg of
           None \<Rightarrow> None
         | Some (None, c1) \<Rightarrow> Some (True, c1)
         | Some (Some ns, c1) \<Rightarrow>
             let msg1 = msg\<lparr>IsLocal := False\<rparr>;
                 (err, c2) = fireEvent ns msg1 c1
             in (case err of
                   None \<Rightarrow> Some (True, c2)
                 | Some e \<Rightarrow>
                     (case Write w (msg1\<lparr>Err := Some e\<rparr>) c2 of
                        None \<Rightarrow> None
                      | Some (_, c3) \<Rightarrow> Some (\<not> isManualCloseError w e, c3)))))"

definition handleMessage :: "world \<Rightarrow> conn \<Rightarrow> message \<Rightarrow> (bool \<times> conn) option" where
  "handleMessage w c msg =
     (case (if wait msg \<noteq> [] then waitingMessages c (wait msg) else None) of
        Some ch \<Rightarrow> map_option (Pair True) (chan_send ch msg c)
      | None \<Rightarrow> dispatch w c msg)"

subsection \<open>Connect\<close>



subsection \<open>Disconnect\<close>

text \<open>
  \<^verbatim>\<open>askDisconnect\<close>: with \<open>lock\<close> it takes the mutex itself (and waits for ever if
  the caller holds it); without, it reads and writes the map as it is.
  \<^verbatim>\<open>Ask\<close> gets a copy of \<open>msg\<close>, so the message fired at the end has no wait token.
\<close>

definition askDisconnect ::
  "world \<Rightarrow> ask_env \<Rightarrow> Context option \<Rightarrow> message \<Rightarrow> bool \<Rightarrow> conn
     \<Rightarrow> (error option \<times> conn) option" where
  "askDisconnect w env ctx msg lock c =
     (if lock \<and> connectedNamespacesMutex c then None
      else
        (case map_of (connectedNamespaces c) (Namespace msg) of
           None \<Rightarrow> Some (Some ErrBadNamespace, c)
         | Some ns \<Rightarrow>
             (case Ask w env ctx msg c of
                None \<Rightarrow> None
              | Some ((_, Some e), c1) \<Rightarrow> Some (Some e, c1)
              | Some ((_, None), c1) \<Rightarrow>
                  if lock \<and> connectedNamespacesMutex c1 then None
                  else
                    Some (None,
                          snd (fireEvent ns (msg\<lparr>IsLocal := True\<rparr>)
                                 (c1\<lparr>connectedNamespaces :=
                                       AList.delete (Namespace msg) (connectedNamespaces c1)\<rparr>))))))"

text \<open>
  The \<^verbatim>\<open>range\<close> of \<^verbatim>\<open>DisconnectAll\<close> over the keys the map has when the loop starts. Each
  namespace is asked at most once, so the environment of its \<^verbatim>\<open>Ask\<close> is given per name.
\<close>

fun DisconnectAll_range ::
  "world \<Rightarrow> (string \<Rightarrow> ask_env) \<Rightarrow> Context option \<Rightarrow> string list \<Rightarrow> conn
     \<Rightarrow> (error option \<times> conn) option" where
  "DisconnectAll_range w envs ctx [] c = Some (None, c)"
| "DisconnectAll_range w envs ctx (k # ks) c =
     (case askDisconnect w (envs k) ctx
             (Message0\<lparr>Event := OnNamespaceDisconnect, Namespace := k\<rparr>) False c of
        None \<Rightarrow> None
      | Some (Some e, c1) \<Rightarrow> Some (Some e, c1)
      | Some (None, c1) \<Rightarrow> DisconnectAll_range w envs ctx ks c1)"

definition DisconnectAll ::
  "world \<Rightarrow> (string \<Rightarrow> ask_env) \<Rightarrow> Context option \<Rightarrow> conn \<Rightarrow> (error option \<times> conn) option" where
  "DisconnectAll w envs ctx c =
     (if connectedNamespacesMutex c then None
      else
        (case DisconnectAll_range w envs ctx (map fst (connectedNamespaces c))
                (c\<lparr>connectedNamespacesMutex := True\<rparr>) of
           None \<Rightarrow> None
         | Some (err, c1) \<Rightarrow> Some (err, c1\<lparr>connectedNamespacesMutex := False\<rparr>)))"

subsection \<open>The reader\<close>

text \<open>
  The reader is either back in \<^verbatim>\<open>ReadText\<close>, with its queue of messages read before
  the acknowledgement, or it has returned.
\<close>

datatype reader = Reading conn "message list" | Returned conn

text \<open>\<^verbatim>\<open>handleQueue\<close>: the results of \<^verbatim>\<open>handleMessage\<close> are dropped.\<close>

fun handleQueue :: "world \<Rightarrow> message list \<Rightarrow> conn \<Rightarrow> conn option" where
  "handleQueue w [] c = Some c"
| "handleQueue w (msg # queue) c =
     (case handleMessage w c msg of
        None \<Rightarrow> None
      | Some (_, c1) \<Rightarrow> handleQueue w queue c1)"

text \<open>One turn of the loop of \<^verbatim>\<open>startReader\<close>, for a frame \<open>b\<close> that \<^verbatim>\<open>ReadText\<close> returned.\<close>

definition reader_frame :: "world \<Rightarrow> bytes \<Rightarrow> conn \<Rightarrow> message list \<Rightarrow> reader option" where
  "reader_frame w b c queue =
     (if \<not> isAcknowledged c \<and> HasPrefix b ackBinary then
        (if IsClient c then
           let c1 = c\<lparr>cid := drop (length ackBinary) b, acknowledged := 1\<rparr>;
               c2 = c1\<lparr>trace := trace c1 @ [SockWrite ackOKBinary]\<rparr>
           in map_option (\<lambda>c3. Reading c3 []) (handleQueue w queue c2)
         else if length b = length ackBinary then
           Some (Reading (c\<lparr>trace := trace c @ [SockWrite (ackBinary @ cid c)]\<rparr>) queue)
         else
           map_option (\<lambda>c1. Reading c1 []) (handleQueue w queue (c\<lparr>acknowledged := 1\<rparr>)))
      else
        let msg = deserializeMessage w b in
        if isInvalid msg then Some (Reading c queue)
        else if \<not> isAcknowledged c then Some (Reading c (queue @ [msg]))
        else
          (case handleMessage w c msg of
             None \<Rightarrow> None
           | Some (True, c1) \<Rightarrow> Some (Reading c1 queue)
           | Some (False, c1) \<Rightarrow> Some (Returned c1)))"

text \<open>What successive calls of \<^verbatim>\<open>ReadText\<close> return.\<close>

datatype read_result = Frame bytes | ReadError

fun reader_loop :: "world \<Rightarrow> read_result list \<Rightarrow> conn \<Rightarrow> message list \<Rightarrow> reader option" where
  "reader_loop w [] c queue = Some (Reading c queue)"
| "reader_loop w (ReadError # rest) c queue = Some (Returned c)"
| "reader_loop w (Frame b # rest) c queue =
     (case reader_frame w b c queue of
        None \<Rightarrow> None
      | Some (Returned c1) \<Rightarrow> Some (Returned c1)
      | Some (Reading c1 queue1) \<Rightarrow> reader_loop w rest c1 queue1)"

definition startReader :: "world \<Rightarrow> read_result list \<Rightarrow> conn \<Rightarrow> reader option" where
  "startReader w reads c =
     (if IsClosed c then Some (Returned c)
      else
        (case reader_loop w reads c [] of
           None \<Rightarrow> None
         | Some (Reading c1 queue) \<Rightarrow> Some (Reading c1 queue)
         | Some (Returned c1) \<Rightarrow> map_option Returned (Close c1)))"

subsection \<open>Concrete collaborators and connections\<close>

text \<open>
  A wire format, a socket and two connections to run the functions on. The format of the
  repository is not in the sources; this one writes the fields of a message between
  semicolons.
\<close>

definition ex_serialize :: "message \<Rightarrow> bytes" where
  "ex_serialize m =
     wait m @ '';'' @ Namespace m @ '';'' @ Room m @ '';'' @ Event m @ '';'' @ Body m"

text \<open>
  Modelled from the spec: the parser is outside the sources; the spec has an empty frame
  unparseable, and \<open>isInvalid\<close> set by the parser on such input. Of the other frames, one
  that starts with \<open>+\<close> is read here as the request, with wait token \<open>1\<close>, to connect the
  namespace named after the sign, and any other as the body of the event \<open>say\<close> of the
  namespace \<open>chat\<close>.
\<close>

definition ex_deserialize :: "bytes \<Rightarrow> message" where
  "ex_deserialize b =
     (case b of
        [] \<Rightarrow> Message0\<lparr>isInvalid := True\<rparr>
      | x # xs \<Rightarrow>
          if x = CHR ''+''
          then Message0\<lparr>Namespace := xs, Event := OnNamespaceConnect, wait := ''1''\<rparr>
          else Message0\<lparr>Namespace := ''chat'', Event := ''say'', Body := b\<rparr>)"

definition ex_world :: "(effect list \<Rightarrow> bytes \<Rightarrow> error option) \<Rightarrow> world" where
  "ex_world sock =
     \<lparr>serializeMessage = ex_serialize, deserializeMessage = ex_deserialize, WriteText = sock,
      IsCloseError = (\<lambda>e. case e of CloseError code err \<Rightarrow> True | _ \<Rightarrow> False),
      isManualCloseError = (\<lambda>e. case e of CloseError code err \<Rightarrow> - 1 < code | _ \<Rightarrow> False),
      replyRoomJoin = (\<lambda>ns msg c. Some c), replyRoomLeave = (\<lambda>ns msg c. Some c)\<rparr>"

text \<open>A socket that takes every write, and one that fails every write as closed.\<close>

definition sock_ok :: "effect list \<Rightarrow> bytes \<Rightarrow> error option" where
  "sock_ok tr b = None"

definition sock_gone :: "effect list \<Rightarrow> bytes \<Rightarrow> error option" where
  "sock_gone tr b = Some (CloseError 1006 (OtherError ''EOF''))"

text \<open>
  An acknowledged connection with the namespaces \<open>chat\<close> and \<open>news\<close> declared and
  connected, no room joined and handlers that return \<^verbatim>\<open>nil\<close>; server side when \<open>srv\<close> is
  given, client side otherwise.
\<close>

definition ex_conn :: "Server option \<Rightarrow> conn" where
  "ex_conn srv =
     (newConn srv [''chat'' \<mapsto> (\<lambda>m. None), ''news'' \<mapsto> (\<lambda>m. None)])
       \<lparr>cid := ''c1'', acknowledged := 1,
        connectedNamespaces := [(''chat'', newNSConn ''chat'' (\<lambda>m. None)),
                                (''news'', newNSConn ''news'' (\<lambda>m. None))]\<rparr>"

text \<open>
  The same server-side connection with a handler for \<open>chat\<close> that refuses every event.
\<close>

definition ex_veto_conn :: conn where
  "ex_veto_conn =
     (ex_conn (Some Server))
       \<lparr>connectedNamespaces := [(''chat'', newNSConn ''chat'' (\<lambda>m. Some (OtherError ''stay''))),
                                (''news'', newNSConn ''news'' (\<lambda>m. None))]\<rparr>"

text \<open>
  What the asks of a \<^verbatim>\<open>DisconnectAll\<close> meet: the peer answers for \<open>chat\<close>, and for any other
  namespace the context is done before an answer.
\<close>

definition ex_envs :: "string \<Rightarrow> ask_env" where
  "ex_envs k =
     (if k = ''chat''
      then \<lparr>now = 5, now_deadline = 5,
            ready = Received (Message0\<lparr>Namespace := ''chat'', Event := OnNamespaceDisconnect,
                                       wait := ''client_5''\<rparr>)\<rparr>
      else \<lparr>now = 6, now_deadline = 6, ready = CtxDone DeadlineExceeded\<rparr>)"

text \<open>A client-side connection as \<^verbatim>\<open>newConn\<close> makes it, with the namespace \<open>chat\<close> declared.\<close>

definition ex_fresh :: conn where
  "ex_fresh = newConn None [''chat'' \<mapsto> (\<lambda>m. None)]"

text \<open>
  A server-side connection as \<^verbatim>\<open>newConn\<close> makes it, with the id \<open>c1\<close> that the server gave
  it on accepting the socket.
\<close>

definition ex_fresh_server :: conn where
  "ex_fresh_server = (newConn (Some Server) [''chat'' \<mapsto> (\<lambda>m. None)])\<lparr>cid := ''c1''\<rparr>"

section \<open>Properties\<close>

lemmas ex_defs = ex_conn_def newConn_def newNSConn_def ex_world_def ex_serialize_def
  ex_deserialize_def sock_ok_def sock_gone_def Message0_def

lemmas event_defs = OnNamespaceConnect_def OnNamespaceConnected_def OnNamespaceDisconnect_def
  OnRoomJoin_def OnRoomLeave_def OnRoomLeft_def isConnect_def isDisconnect_def isRoomJoin_def
  isRoomLeft_def

subsection \<open>Close\<close>

lemma filter_delete_keys:
  "filter (\<lambda>(k', _). k' \<notin> fst ` set es) (AList.delete k al)
     = filter (\<lambda>(k', _). k' \<notin> fst ` set ((k, ns) # es)) al"
  unfolding AList.delete_eq filter_filter by (rule filter_cong) auto

lemma filter_own_keys: "filter (\<lambda>(k, _). k \<notin> fst ` set al) al = []"
  by (force simp: filter_empty_conv)

lemma Close_range_step:
  "Close_range ((k, ns) # rest) c =
     Close_range rest
       (c\<lparr>trace := trace c @ [Fired (namespace ns)
                                  (disconnectMsg_forced\<lparr>Namespace := namespace ns\<rparr>)],
          connectedNamespaces := AList.delete k (connectedNamespaces c)\<rparr>)"
  by (simp add: fireEvent_def)

text \<open>The loop fires once for each entry, in the order of the entries, and deletes their keys.\<close>

lemma Close_range_eq:
  "Close_range es c =
     c\<lparr>trace := trace c @ map (\<lambda>(k, ns). Fired (namespace ns)
                                   (disconnectMsg_forced\<lparr>Namespace := namespace ns\<rparr>)) es,
       connectedNamespaces := filter (\<lambda>(k, _). k \<notin> fst ` set es) (connectedNamespaces c)\<rparr>"
proof (induction es arbitrary: c)
  case Nil
  show ?case by simp
next
  case (Cons e es)
  obtain k ns where e: "e = (k, ns)" by (cases e)
  show ?case
    unfolding e Close_range_step Cons.IH
    by (simp del: set_simps image_insert add: filter_delete_keys)
qed

text \<open>
  A call of \<^verbatim>\<open>Close\<close> that finds \<open>closed\<close> at 0, made by a caller that does not hold
  \<open>connectedNamespacesMutex\<close>, returns; between the closing of \<^verbatim>\<open>closeCh\<close> and the shutdown
  of the socket it fires \<open>OnNamespaceDisconnect\<close> with \<open>IsForced\<close> and \<open>IsLocal\<close> set once
  for each entry of \<open>connectedNamespaces\<close> (the keys of a map are distinct, so once for
  each connected namespace) and nothing else; afterwards \<open>connectedNamespaces\<close> and
  \<open>waitingMessages\<close> are empty, \<open>acknowledged\<close> is 0 and \<open>closed\<close> is 1, and a further
  \<^verbatim>\<open>Close\<close> changes nothing.
\<close>

theorem Close_once:
  assumes "closed c = 0" and "\<not> connectedNamespacesMutex c"
    and "distinct (map fst (connectedNamespaces c))"
  shows "\<exists>c'. Close c = Some c'
           \<and> trace c' = trace c @ [CloseChClosed]
                @ map (\<lambda>(k, ns). Fired (namespace ns)
                         (Message0\<lparr>Event := OnNamespaceDisconnect, IsForced := True,
                                   IsLocal := True, Namespace := namespace ns\<rparr>))
                      (connectedNamespaces c)
                @ (if IsClient c then [] else [ServerNotified]) @ [NetConnClosed]
           \<and> connectedNamespaces c' = [] \<and> waitingMessages c' = Map.empty
           \<and> acknowledged c' = 0 \<and> closed c' = 1
           \<and> Close c' = Some c'"
  using assms(1,2)
  by (simp add: Close_def Close_range_eq filter_own_keys IsClient_def disconnectMsg_forced_def)

theorem Close_once_witness:
  "\<exists>c'. Close (ex_conn (Some Server)) = Some c'
      \<and> trace c' = [CloseChClosed,
           Fired ''chat'' (Message0\<lparr>Event := OnNamespaceDisconnect, IsForced := True,
                                     IsLocal := True, Namespace := ''chat''\<rparr>),
           Fired ''news'' (Message0\<lparr>Event := OnNamespaceDisconnect, IsForced := True,
                                     IsLocal := True, Namespace := ''news''\<rparr>),
           ServerNotified, NetConnClosed]
      \<and> connectedNamespaces c' = [] \<and> waitingMessages c' = Map.empty
      \<and> acknowledged c' = 0 \<and> closed c' = 1 \<and> Close c' = Some c'"
  using Close_once [of "ex_conn (Some Server)"]
  by (simp add: ex_conn_def newConn_def newNSConn_def IsClient_def)

subsection \<open>Ask under an expired context\<close>

text \<open>
  Claim C6. On a connection that is not closed, \<^verbatim>\<open>Ask\<close> with a context whose deadline is
  more than one second before the clock returns \<open>DeadlineExceeded\<close> and leaves the
  connection as it was: nothing is written to the socket and no wait token is registered.
\<close>

theorem Ask_deadline_exceeded:
  assumes "\<not> IsClosed c" and "ctx = Some cx" and "deadline cx = Some d"
    and "d < now_deadline env - 1000000000"
  shows "Ask w env ctx msg c = Some ((Message0, Some DeadlineExceeded), c)"
  using assms by (simp add: Ask_def deadline_passed_def Let_def)

theorem Ask_deadline_exceeded_witness:
  "Ask (ex_world sock_ok) \<lparr>now = 5000000000, now_deadline = 5000000100, ready = NeverReady\<rparr>
     (Some \<lparr>deadline = Some 3000000000\<rparr>)
     (Message0\<lparr>Namespace := ''chat'', Event := ''say''\<rparr>) (ex_conn None)
   = Some ((Message0, Some DeadlineExceeded), ex_conn None)"
  using Ask_deadline_exceeded [of "ex_conn None" "Some \<lparr>deadline = Some 3000000000\<rparr>"
      "\<lparr>deadline = Some 3000000000\<rparr>" 3000000000
      "\<lparr>now = 5000000000, now_deadline = 5000000100, ready = NeverReady\<rparr>"
      "ex_world sock_ok" "Message0\<lparr>Namespace := ''chat'', Event := ''say''\<rparr>"]
  by (simp add: IsClosed_def ex_conn_def newConn_def)

subsection \<open>Write\<close>


text \<open>
  Claim C4, as amended. A message that is neither a connect nor a disconnect event is
  refused by \<^verbatim>\<open>Write\<close>, with nothing handed to the socket, when its namespace is not
  connected; and when it names a room that is not in the room set of the NSConn, unless it
  is a room-join or a room-left event (\<^verbatim>\<open>isRoomJoin\<close>, \<^verbatim>\<open>isRoomLeft\<close>). A room-leave event
  (\<open>OnRoomLeave\<close>) is not exempt.
\<close>

theorem Write_rejects:
  assumes "\<not> isConnect msg" and "\<not> isDisconnect msg" and "\<not> connectedNamespacesMutex c"
  shows "(map_of (connectedNamespaces c) (Namespace msg) = None
            \<longrightarrow> Write w msg c = Some (False, c))
       \<and> (\<forall>ns. map_of (connectedNamespaces c) (Namespace msg) = Some ns
               \<and> Room msg \<noteq> [] \<and> \<not> isRoomJoin msg \<and> \<not> isRoomLeft msg
               \<and> Room msg \<notin> rooms ns
            \<longrightarrow> Write w msg c = Some (False, c))"
  using assms by (auto simp: Write_def Write_allowed_def Namespace_conn_def)

theorem Write_rejects_witness:
  "Write (ex_world sock_ok) (Message0\<lparr>Namespace := ''games'', Event := ''say''\<rparr>) (ex_conn None)
     = Some (False, ex_conn None)
   \<and> Write (ex_world sock_ok)
       (Message0\<lparr>Namespace := ''chat'', Room := ''lobby'', Event := OnRoomLeave\<rparr>) (ex_conn None)
     = Some (False, ex_conn None)"
  using Write_rejects [of "Message0\<lparr>Namespace := ''games'', Event := ''say''\<rparr>" "ex_conn None"
                          "ex_world sock_ok"]
    Write_rejects [of "Message0\<lparr>Namespace := ''chat'', Room := ''lobby'', Event := OnRoomLeave\<rparr>"
                      "ex_conn None" "ex_world sock_ok"]
  by (simp add: ex_conn_def newConn_def newNSConn_def Message0_def event_defs)

text \<open>
  Claim C4 as stated fails: an \<open>OnRoomLeft\<close> message is neither a room-join nor a room-leave
  event, yet \<^verbatim>\<open>Write\<close> sends it for a room the NSConn has not joined.
\<close>

theorem Write_room_left_counterexample:
  "Event (Message0\<lparr>Namespace := ''chat'', Room := ''lobby'', Event := OnRoomLeft\<rparr>) \<noteq> OnRoomJoin
   \<and> Event (Message0\<lparr>Namespace := ''chat'', Room := ''lobby'', Event := OnRoomLeft\<rparr>) \<noteq> OnRoomLeave
   \<and> \<not> isConnect (Message0\<lparr>Namespace := ''chat'', Room := ''lobby'', Event := OnRoomLeft\<rparr>)
   \<and> \<not> isDisconnect (Message0\<lparr>Namespace := ''chat'', Room := ''lobby'', Event := OnRoomLeft\<rparr>)
   \<and> map_of (connectedNamespaces (ex_conn None)) ''chat'' = Some (newNSConn ''chat'' (\<lambda>m. None))
   \<and> ''lobby'' \<notin> rooms (newNSConn ''chat'' (\<lambda>m. None))
   \<and> Write (ex_world sock_ok)
        (Message0\<lparr>Namespace := ''chat'', Room := ''lobby'', Event := OnRoomLeft\<rparr>) (ex_conn None)
      = Some (True, (ex_conn None)\<lparr>trace := [SockWrite '';chat;lobby;_OnRoomLeft;'']\<rparr>)"
  by (simp add: Write_def Write_allowed_def Namespace_conn_def IsClosed_def ex_defs event_defs)

subsection \<open>Connect on a connected namespace\<close>






subsection \<open>The decimal form of the clock\<close>

lemma FormatInt_5: "FormatInt 5 = ''5''"
  by (simp add: FormatInt_def digits.simps)

lemma FormatInt_6: "FormatInt 6 = ''6''"
  by (simp add: FormatInt_def digits.simps)

lemmas run_defs = Ask_def Ask_select_def Write_def Write_allowed_def Namespace_conn_def
  deadline_passed_def waitToken_def IsClient_def IsClosed_def FormatInt_5 FormatInt_6
  fireEvent_def

lemma digit_inj:
  assumes "a < 10" and "b < 10" and "''0123456789'' ! a = ''0123456789'' ! b"
  shows "a = b"
proof -
  have "distinct ''0123456789''" by simp
  moreover have "a < length ''0123456789''" "b < length ''0123456789''" using assms by simp_all
  ultimately show ?thesis using assms(3) by (simp only: nth_eq_iff_index_eq)
qed

lemma digits_not_Nil: "digits n \<noteq> []"
  by (subst digits.simps) simp

lemma digits_last: "last (digits n) = ''0123456789'' ! (n mod 10)"
  by (subst digits.simps) simp

lemma digits_butlast: "butlast (digits n) = (if n < 10 then [] else digits (n div 10))"
  by (subst digits.simps) simp

lemma digits_set: "set (digits n) \<subseteq> set ''0123456789''"
proof (induction n rule: digits.induct)
  case (1 n)
  have m: "''0123456789'' ! (n mod 10) \<in> set ''0123456789''"
    by (rule nth_mem) simp
  show ?case
  proof (cases "n < 10")
    case True
    with m show ?thesis by (subst digits.simps) simp
  next
    case False
    with 1 m show ?thesis by (subst digits.simps) simp
  qed
qed

lemma digits_inj: "digits a = digits b \<Longrightarrow> a = b"
proof (induction a arbitrary: b rule: digits.induct)
  case (1 a)
  from 1(2) have "last (digits a) = last (digits b)" by simp
  then have "''0123456789'' ! (a mod 10) = ''0123456789'' ! (b mod 10)"
    by (simp only: digits_last)
  then have m: "a mod 10 = b mod 10"
    by (intro digit_inj) simp_all
  from 1(2) have "butlast (digits a) = butlast (digits b)" by simp
  then have bl: "(if a < 10 then [] else digits (a div 10))
                   = (if b < 10 then [] else digits (b div 10))"
    by (simp only: digits_butlast)
  show ?case
  proof (cases "a < 10")
    case True
    with bl have "b < 10" using digits_not_Nil [of "b div 10"] by (auto split: if_splits)
    with True m show ?thesis by simp
  next
    case False
    with bl have b: "\<not> b < 10" and "digits (a div 10) = digits (b div 10)"
      using digits_not_Nil [of "a div 10"] by (auto split: if_splits)
    with 1(1) False have "a div 10 = b div 10" by simp
    with m show ?thesis by (metis div_mult_mod_eq)
  qed
qed

lemma digits_hd: "hd (digits n) \<in> set ''0123456789''"
proof -
  have "hd (digits n) \<in> set (digits n)"
    by (rule hd_in_set) (rule digits_not_Nil)
  with digits_set [of n] show ?thesis by (rule subsetD)
qed

lemma FormatInt_inj: "FormatInt a = FormatInt b \<Longrightarrow> a = b"
proof -
  assume e: "FormatInt a = FormatInt b"
  have minus: "CHR ''-'' # xs \<noteq> digits n" for xs n
  proof
    assume "CHR ''-'' # xs = digits n"
    then have "hd (digits n) = CHR ''-''" by (metis list.sel(1))
    with digits_hd [of n] show False by simp
  qed
  show ?thesis
  proof (cases "a < 0")
    case True
    show ?thesis
    proof (cases "b < 0")
      case True
      with \<open>a < 0\<close> e have "digits (nat (- a)) = digits (nat (- b))"
        by (simp add: FormatInt_def)
      then have "nat (- a) = nat (- b)" by (rule digits_inj)
      with True \<open>a < 0\<close> show ?thesis by simp
    next
      case False
      with \<open>a < 0\<close> e minus show ?thesis by (simp add: FormatInt_def)
    qed
  next
    case False
    show ?thesis
    proof (cases "b < 0")
      case True
      with False e minus [of "digits (nat (- b))" "nat a"] show ?thesis
        by (simp add: FormatInt_def)
    next
      case b: False
      with False e have "digits (nat a) = digits (nat b)" by (simp add: FormatInt_def)
      then have "nat a = nat b" by (rule digits_inj)
      with False b show ?thesis by simp
    qed
  qed
qed

lemma FormatInt_hd: "hd (FormatInt t) \<in> set ''-0123456789''"
proof (cases "t < 0")
  case True
  then show ?thesis by (simp add: FormatInt_def)
next
  case False
  with digits_hd [of "nat t"] show ?thesis by (simp add: FormatInt_def)
qed

lemma FormatInt_not_Nil: "FormatInt t \<noteq> []"
  by (simp add: FormatInt_def digits_not_Nil)

lemma FormatInt_no_client_prefix: "\<not> HasPrefix (FormatInt t) ''client_''"
proof
  assume "HasPrefix (FormatInt t) ''client_''"
  then have "take (length ''client_'') (FormatInt t) = ''client_''"
    unfolding HasPrefix_def .
  then have "hd (take (length ''client_'') (FormatInt t)) = CHR ''c''" by simp
  then have "hd (FormatInt t) = CHR ''c''" by (simp add: hd_take)
  with FormatInt_hd [of t] show False by simp
qed

subsection \<open>Replies to asks\<close>

text \<open>
  A message whose wait token is registered goes on the channel of the token and nowhere
  else: it reaches the \<^verbatim>\<open>Ask\<close> waiting on that channel, and \<^verbatim>\<open>handleMessage\<close> returns true
  without looking at the event; when no \<^verbatim>\<open>Ask\<close> is waiting on the channel the send does not
  complete.
\<close>

lemma handleMessage_reply:
  assumes "wait msg \<noteq> []" and "waitingMessages c (wait msg) = Some ch"
  shows "handleMessage w c msg = map_option (Pair True) (chan_send ch msg c)"
  using assms by (simp add: handleMessage_def)

lemma handleMessage_reply_delivered:
  assumes "wait msg \<noteq> []" and "waitingMessages c (wait msg) = Some ch" and "ch \<in> awaiting c"
  shows "handleMessage w c msg
           = Some (True, c\<lparr>awaiting := awaiting c - {ch}, trace := trace c @ [ChanSend ch msg]\<rparr>)"
  using assms by (simp add: handleMessage_def chan_send_def)

lemma handleMessage_reply_blocked:
  assumes "wait msg \<noteq> []" and "waitingMessages c (wait msg) = Some ch" and "ch \<notin> awaiting c"
  shows "handleMessage w c msg = None"
  using assms by (simp add: handleMessage_def chan_send_def)

text \<open>
  Claim C1, where the code departs from it. A client asks in the namespace \<open>chat\<close> at clock
  reading 5 and its context is cancelled before the reply: \<^verbatim>\<open>Ask\<close> returns the context's
  error and leaves the token \<open>client_5\<close> registered. When the reply with that token comes
  in, \<^verbatim>\<open>handleMessage\<close> finds the token, sends on its channel, on which nobody receives
  any more, and does not return. (Had the \<^verbatim>\<open>Ask\<close> still been waiting on its channel, the
  reply would have gone to it, and \<^verbatim>\<open>handleMessage\<close> would have returned true without
  firing a handler.)
\<close>

theorem handleMessage_cancelled_ask_reply:
  "Ask (ex_world sock_ok) \<lparr>now = 5, now_deadline = 6, ready = CtxDone Canceled\<rparr>
       (Some \<lparr>deadline = None\<rparr>) (Message0\<lparr>Namespace := ''chat'', Event := ''say''\<rparr>) (ex_conn None)
     = Some ((Message0, Some Canceled),
             (ex_conn None)\<lparr>chans := 1, waitingMessages := [''client_5'' \<mapsto> 0],
                             trace := [SockWrite ''client_5;chat;;say;'']\<rparr>)
   \<and> handleMessage (ex_world sock_ok)
       ((ex_conn None)\<lparr>chans := 1, waitingMessages := [''client_5'' \<mapsto> 0],
                       trace := [SockWrite ''client_5;chat;;say;'']\<rparr>)
       (Message0\<lparr>Namespace := ''chat'', Event := ''say'', Body := ''hi'', wait := ''client_5''\<rparr>)
     = None
   \<and> handleMessage (ex_world sock_ok)
       ((ex_conn None)\<lparr>chans := 1, waitingMessages := [''client_5'' \<mapsto> 0], awaiting := {0},
                       trace := [SockWrite ''client_5;chat;;say;'']\<rparr>)
       (Message0\<lparr>Namespace := ''chat'', Event := ''say'', Body := ''hi'', wait := ''client_5''\<rparr>)
     = Some (True,
         (ex_conn None)\<lparr>chans := 1, waitingMessages := [''client_5'' \<mapsto> 0], awaiting := {},
           trace := [SockWrite ''client_5;chat;;say;'',
                     ChanSend 0 (Message0\<lparr>Namespace := ''chat'', Event := ''say'', Body := ''hi'',
                                           wait := ''client_5''\<rparr>)]\<rparr>)"
  by (simp add: run_defs handleMessage_def chan_send_def ex_defs event_defs)

subsection \<open>Ask when the write fails\<close>

lemma Close_open:
  assumes "closed c = 0" and "Close c = Some c'"
  shows "closed c' = 1 \<and> waitingMessages c' = Map.empty \<and> connectedNamespaces c' = []
       \<and> \<not> connectedNamespacesMutex c"
  using assms
  by (auto simp: Close_def Close_range_eq filter_own_keys Let_def split: if_splits)

lemma Write_waitingMessages:
  assumes "\<not> IsClosed c" and "Write w msg c = Some (b, c')"
  shows "waitingMessages c' = (if IsClosed c' then Map.empty else waitingMessages c)"
proof -
  let ?c1 = "c\<lparr>trace := trace c @ [SockWrite (serializeMessage w msg)]\<rparr>"
  from assms consider "c' = c" | "c' = ?c1" | "Close ?c1 = Some c'"
    by (auto simp: Write_def Let_def split: if_splits option.splits bool.splits)
  then show ?thesis
  proof cases
    case 1
    with assms(1) show ?thesis by simp
  next
    case 2
    with assms(1) show ?thesis by (simp add: IsClosed_def)
  next
    case 3
    from assms(1) have "closed ?c1 = 0" by (simp add: IsClosed_def)
    from Close_open [OF this 3] show ?thesis by (simp add: IsClosed_def)
  qed
qed

text \<open>
  Claim C9, as amended. When \<^verbatim>\<open>Ask\<close> on an open connection passes the check of the deadline
  and its \<^verbatim>\<open>Write\<close> returns false, \<^verbatim>\<open>Ask\<close> returns \<open>ErrWrite\<close> and does not remove the
  token it registered: the token is still registered, with the channel of this call, unless
  the write closed the connection, and then \<^verbatim>\<open>Close\<close> has emptied \<open>waitingMessages\<close>.
\<close>

theorem Ask_write_failed:
  assumes "\<not> IsClosed c" and "\<not> deadline_passed ctx (now_deadline env)"
    and "Write w (msg\<lparr>wait := waitToken c (now env)\<rparr>)
           (c\<lparr>chans := Suc (chans c),
              waitingMessages := (waitingMessages c)(waitToken c (now env) \<mapsto> chans c)\<rparr>)
         = Some (False, c')"
  shows "Ask w env ctx msg c = Some ((Message0, Some ErrWrite), c')
       \<and> waitingMessages c' (waitToken c (now env))
           = (if IsClosed c' then None else Some (chans c))"
proof -
  let ?c1 = "c\<lparr>chans := Suc (chans c),
              waitingMessages := (waitingMessages c)(waitToken c (now env) \<mapsto> chans c)\<rparr>"
  from assms(1) have "\<not> IsClosed ?c1" by (simp add: IsClosed_def)
  from Write_waitingMessages [OF this assms(3)]
  have "waitingMessages c' (waitToken c (now env))
           = (if IsClosed c' then None else Some (chans c))"
    by simp
  with assms show ?thesis by (simp add: Ask_def Let_def)
qed

theorem Ask_write_failed_witness:
  "Ask (ex_world sock_ok) \<lparr>now = 5, now_deadline = 6, ready = NeverReady\<rparr> None
       (Message0\<lparr>Namespace := ''games'', Event := ''say''\<rparr>) (ex_conn None)
     = Some ((Message0, Some ErrWrite),
             (ex_conn None)\<lparr>chans := 1, waitingMessages := [''client_5'' \<mapsto> 0]\<rparr>)
   \<and> waitingMessages ((ex_conn None)\<lparr>chans := 1, waitingMessages := [''client_5'' \<mapsto> 0]\<rparr>)
        ''client_5'' = Some 0"
proof -
  have 1: "\<not> IsClosed (ex_conn None)" by (simp add: IsClosed_def ex_defs)
  have 2: "\<not> deadline_passed None
              (now_deadline \<lparr>now = 5, now_deadline = 6, ready = NeverReady\<rparr>)"
    by (simp add: deadline_passed_def)
  have 3: "Write (ex_world sock_ok)
        ((Message0\<lparr>Namespace := ''games'', Event := ''say''\<rparr>)
           \<lparr>wait := waitToken (ex_conn None)
                      (now \<lparr>now = 5, now_deadline = 6, ready = NeverReady\<rparr>)\<rparr>)
        ((ex_conn None)\<lparr>chans := Suc (chans (ex_conn None)),
           waitingMessages := (waitingMessages (ex_conn None))
             (waitToken (ex_conn None) (now \<lparr>now = 5, now_deadline = 6, ready = NeverReady\<rparr>)
                \<mapsto> chans (ex_conn None))\<rparr>)
      = Some (False, (ex_conn None)\<lparr>chans := 1, waitingMessages := [''client_5'' \<mapsto> 0]\<rparr>)"
    by (simp add: waitToken_def IsClient_def FormatInt_5 Write_def Write_allowed_def
          Namespace_conn_def IsClosed_def ex_defs event_defs)
  from Ask_write_failed [OF 1 2 3] show ?thesis
    by (simp add: waitToken_def IsClient_def FormatInt_5 IsClosed_def ex_defs)
qed

text \<open>
  Claim C9 as stated fails: when the socket fails the write as closed, \<^verbatim>\<open>Write\<close> closes the
  connection, and the token is no longer registered when \<^verbatim>\<open>Ask\<close> returns \<open>ErrWrite\<close>.
\<close>

theorem Ask_write_closed_counterexample:
  "Ask (ex_world sock_gone) \<lparr>now = 5, now_deadline = 6, ready = NeverReady\<rparr> None
       (Message0\<lparr>Namespace := ''chat'', Event := ''say''\<rparr>) (ex_conn None)
     = Some ((Message0, Some ErrWrite),
             (ex_conn None)\<lparr>chans := 1, closed := 1, acknowledged := 0, connectedNamespaces := [],
               trace := [SockWrite ''client_5;chat;;say;'', CloseChClosed,
                         Fired ''chat'' (disconnectMsg_forced\<lparr>Namespace := ''chat''\<rparr>),
                         Fired ''news'' (disconnectMsg_forced\<lparr>Namespace := ''news''\<rparr>),
                         NetConnClosed]\<rparr>)
   \<and> waitingMessages ((ex_conn None)\<lparr>chans := 1, closed := 1, acknowledged := 0,
               connectedNamespaces := [],
               trace := [SockWrite ''client_5;chat;;say;'', CloseChClosed,
                         Fired ''chat'' (disconnectMsg_forced\<lparr>Namespace := ''chat''\<rparr>),
                         Fired ''news'' (disconnectMsg_forced\<lparr>Namespace := ''news''\<rparr>),
                         NetConnClosed]\<rparr>) ''client_5'' = None"
  by (simp add: Ask_def Write_def Write_allowed_def Namespace_conn_def Close_def Close_range_eq
        deadline_passed_def waitToken_def IsClient_def IsClosed_def FormatInt_5
        ex_defs event_defs)

subsection \<open>Wait tokens\<close>

lemma waitToken_inj: "waitToken c t1 = waitToken c t2 \<Longrightarrow> t1 = t2"
  by (cases "IsClient c") (auto simp: waitToken_def dest: FormatInt_inj)

lemma Ask_registers:
  assumes "\<not> IsClosed c" and "\<not> deadline_passed ctx (now_deadline env)"
    and "Ask w env ctx msg c = Some (r, c')" and "\<not> IsClosed c'"
    and "\<forall>m. ready env \<noteq> Received m"
  shows "waitingMessages c' (waitToken c (now env)) = Some (chans c)"
proof -
  let ?c1 = "c\<lparr>chans := Suc (chans c),
              waitingMessages := (waitingMessages c)(waitToken c (now env) \<mapsto> chans c)\<rparr>"
  from assms(1) have o: "\<not> IsClosed ?c1" by (simp add: IsClosed_def)
  from assms(1,2,3) obtain b c2 where
    w: "Write w (msg\<lparr>wait := waitToken c (now env)\<rparr>) ?c1 = Some (b, c2)"
    and s: "(\<not> b \<and> c' = c2) \<or> (b \<and> Ask_select ctx (ready env) c2 = Some (r, c'))"
    by (auto simp: Ask_def Let_def split: option.splits bool.splits)
  from s assms(5) have "c' = c2"
    by (auto simp: Ask_select_def split: selected.splits if_splits)
  with Write_waitingMessages [OF o w] assms(4) show ?thesis by simp
qed

text \<open>
  Claim C5, as amended. The wait token of an \<^verbatim>\<open>Ask\<close> is the decimal form of its clock
  reading, after \<open>client_\<close> on the client side: two calls on a connection get different
  tokens exactly when their clock readings differ; a client-side token starts with
  \<open>client_\<close> and a server-side token never does. The token is the key under which the call
  registers its channel (seen here on every return of a call that passed the checks,
  received no reply and left the connection open).
\<close>

theorem Ask_wait_token:
  "(waitToken c t1 = waitToken c t2 \<longleftrightarrow> t1 = t2)
   \<and> (IsClient c \<longrightarrow> HasPrefix (waitToken c t) ''client_'')
   \<and> (\<not> IsClient c \<longrightarrow> \<not> HasPrefix (waitToken c t) ''client_'')
   \<and> (\<not> IsClosed c \<and> \<not> deadline_passed ctx (now_deadline env)
        \<and> Ask w env ctx msg c = Some (r, c') \<and> \<not> IsClosed c'
        \<and> (\<forall>m. ready env \<noteq> Received m)
      \<longrightarrow> waitingMessages c' (waitToken c (now env)) = Some (chans c))"
proof (intro conjI impI)
  show "waitToken c t1 = waitToken c t2 \<longleftrightarrow> t1 = t2"
    using waitToken_inj by blast
  show "HasPrefix (waitToken c t) ''client_''" if "IsClient c"
    using that by (simp add: waitToken_def HasPrefix_def)
  show "\<not> HasPrefix (waitToken c t) ''client_''" if "\<not> IsClient c"
    using that FormatInt_no_client_prefix by (simp add: waitToken_def)
  show "waitingMessages c' (waitToken c (now env)) = Some (chans c)"
    if "\<not> IsClosed c \<and> \<not> deadline_passed ctx (now_deadline env)
        \<and> Ask w env ctx msg c = Some (r, c') \<and> \<not> IsClosed c'
        \<and> (\<forall>m. ready env \<noteq> Received m)"
    using that Ask_registers by blast
qed

theorem Ask_wait_token_witness:
  "waitToken (ex_conn None) 5 \<noteq> waitToken (ex_conn None) 6
   \<and> HasPrefix (waitToken (ex_conn None) 5) ''client_''
   \<and> \<not> HasPrefix (waitToken (ex_conn (Some Server)) 5) ''client_''
   \<and> waitingMessages
        ((ex_conn None)\<lparr>chans := 1, waitingMessages := [''client_5'' \<mapsto> 0],
                        trace := [SockWrite ''client_5;chat;;say;'']\<rparr>)
        (waitToken (ex_conn None) 5) = Some 0"
proof -
  have a: "Ask (ex_world sock_ok) \<lparr>now = 5, now_deadline = 6, ready = CtxDone Canceled\<rparr>
       (Some \<lparr>deadline = None\<rparr>) (Message0\<lparr>Namespace := ''chat'', Event := ''say''\<rparr>) (ex_conn None)
     = Some ((Message0, Some Canceled),
             (ex_conn None)\<lparr>chans := 1, waitingMessages := [''client_5'' \<mapsto> 0],
                             trace := [SockWrite ''client_5;chat;;say;'']\<rparr>)"
    by (simp add: Ask_def Ask_select_def Write_def Write_allowed_def Namespace_conn_def
        deadline_passed_def waitToken_def IsClient_def IsClosed_def FormatInt_5
        ex_defs event_defs)
  have h: "\<not> IsClosed (ex_conn None)"
      "\<not> deadline_passed (Some \<lparr>deadline = None\<rparr>)
           (now_deadline \<lparr>now = 5, now_deadline = 6, ready = CtxDone Canceled\<rparr>)"
      "\<not> IsClosed ((ex_conn None)\<lparr>chans := 1, waitingMessages := [''client_5'' \<mapsto> 0],
                             trace := [SockWrite ''client_5;chat;;say;'']\<rparr>)"
      "\<forall>m. ready \<lparr>now = 5, now_deadline = 6, ready = CtxDone Canceled\<rparr> \<noteq> Received m"
      "IsClient (ex_conn None)" "\<not> IsClient (ex_conn (Some Server))"
      "chans (ex_conn None) = 0"
    by (simp_all add: IsClosed_def IsClient_def deadline_passed_def ex_conn_def newConn_def)
  note t = Ask_wait_token [of "ex_conn None" 5 6 5 "Some \<lparr>deadline = None\<rparr>"
      "\<lparr>now = 5, now_deadline = 6, ready = CtxDone Canceled\<rparr>" "ex_world sock_ok"
      "Message0\<lparr>Namespace := ''chat'', Event := ''say''\<rparr>" "(Message0, Some Canceled)"
      "(ex_conn None)\<lparr>chans := 1, waitingMessages := [''client_5'' \<mapsto> 0],
                             trace := [SockWrite ''client_5;chat;;say;'']\<rparr>"]
  note s = Ask_wait_token [of "ex_conn (Some Server)" 5 6 5]
  from t s a h show ?thesis by simp
qed

text \<open>
  Claim C5 as stated fails: two different asks that read the same value of the clock get
  the same token, and the second registration replaces the channel of the first.
\<close>

theorem Ask_same_clock_counterexample:
  "Ask (ex_world sock_ok) \<lparr>now = 5, now_deadline = 6, ready = CtxDone Canceled\<rparr>
       (Some \<lparr>deadline = None\<rparr>) (Message0\<lparr>Namespace := ''chat'', Event := ''say''\<rparr>) (ex_conn None)
     = Some ((Message0, Some Canceled),
             (ex_conn None)\<lparr>chans := 1, waitingMessages := [''client_5'' \<mapsto> 0],
                             trace := [SockWrite ''client_5;chat;;say;'']\<rparr>)
   \<and> Ask (ex_world sock_ok) \<lparr>now = 5, now_deadline = 6, ready = CtxDone Canceled\<rparr>
       (Some \<lparr>deadline = None\<rparr>) (Message0\<lparr>Namespace := ''news'', Event := ''tell''\<rparr>)
       ((ex_conn None)\<lparr>chans := 1, waitingMessages := [''client_5'' \<mapsto> 0],
                       trace := [SockWrite ''client_5;chat;;say;'']\<rparr>)
     = Some ((Message0, Some Canceled),
             (ex_conn None)\<lparr>chans := 2, waitingMessages := [''client_5'' \<mapsto> 1],
                             trace := [SockWrite ''client_5;chat;;say;'',
                                       SockWrite ''client_5;news;;tell;'']\<rparr>)"
  by (simp add: Ask_def Ask_select_def Write_def Write_allowed_def Namespace_conn_def
        deadline_passed_def waitToken_def IsClient_def IsClosed_def FormatInt_5
        ex_defs event_defs)

subsection \<open>Disconnect asked by the peer, on the server side\<close>

lemma Write_disconnect_sent:
  assumes "\<not> IsClosed c" and "isConnect msg \<or> isDisconnect msg"
    and "WriteText w (trace c) (serializeMessage w msg) = None"
  shows "Write w msg c = Some (True, c\<lparr>trace := trace c @ [SockWrite (serializeMessage w msg)]\<rparr>)"
  using assms by (auto simp: Write_def Write_allowed_def)

text \<open>
  Claim C8. A server-side connection that is open gets an \<open>OnNamespaceDisconnect\<close> ask
  (a wait token that is not one of its own, not a no-op) for a connected namespace.
  \<^verbatim>\<open>handleMessage\<close> hands it to \<^verbatim>\<open>replyDisconnect\<close>, which fires the handler of the namespace
  first, on the unchanged map, and then writes the reply: with the handler's error in it
  and the entry still in \<open>connectedNamespaces\<close> when the handler returned an error, and
  after deleting the entry when it returned none. The last two parts give the whole
  outcome when the socket takes the reply: the handler is fired, then the reply is
  written, and the entry is deleted exactly when the handler did not refuse.
\<close>

theorem replyDisconnect_server_veto:
  assumes "\<not> IsClient c" and "\<not> IsClosed c" and "\<not> connectedNamespacesMutex c"
    and "Event msg = OnNamespaceDisconnect" and "wait msg \<noteq> []" and "\<not> isNoOp msg"
    and "waitingMessages c (wait msg) = None"
    and "map_of (connectedNamespaces c) (Namespace msg) = Some ns"
  shows "handleMessage w c msg = map_option (Pair True) (replyDisconnect w c msg)
       \<and> replyDisconnect w c msg =
           (case events ns msg of
              Some e \<Rightarrow>
                map_option snd
                  (Write w (msg\<lparr>Err := Some e\<rparr>)
                     (c\<lparr>trace := trace c @ [Fired (namespace ns) msg]\<rparr>))
            | None \<Rightarrow>
                map_option snd
                  (Write w msg
                     (c\<lparr>trace := trace c @ [Fired (namespace ns) msg],
                        connectedNamespaces :=
                          AList.delete (Namespace msg) (connectedNamespaces c)\<rparr>)))
       \<and> (\<forall>e. events ns msg = Some e
              \<and> WriteText w (trace c @ [Fired (namespace ns) msg])
                   (serializeMessage w (msg\<lparr>Err := Some e\<rparr>)) = None
            \<longrightarrow> handleMessage w c msg =
                  Some (True, c\<lparr>trace := trace c @ [Fired (namespace ns) msg,
                                   SockWrite (serializeMessage w (msg\<lparr>Err := Some e\<rparr>))]\<rparr>))
       \<and> (events ns msg = None
              \<and> WriteText w (trace c @ [Fired (namespace ns) msg]) (serializeMessage w msg) = None
            \<longrightarrow> handleMessage w c msg =
                  Some (True, c\<lparr>trace := trace c @ [Fired (namespace ns) msg,
                                   SockWrite (serializeMessage w msg)],
                                 connectedNamespaces :=
                                   AList.delete (Namespace msg) (connectedNamespaces c)\<rparr>))"
proof -
  have d: "Event msg \<noteq> OnNamespaceConnect"
    using assms(4) by (simp add: OnNamespaceConnect_def OnNamespaceDisconnect_def)
  have h: "handleMessage w c msg = map_option (Pair True) (replyDisconnect w c msg)"
    using assms(4,7) d by (simp add: handleMessage_def dispatch_def)
  have r: "replyDisconnect w c msg =
           (case events ns msg of
              Some e \<Rightarrow>
                map_option snd
                  (Write w (msg\<lparr>Err := Some e\<rparr>)
                     (c\<lparr>trace := trace c @ [Fired (namespace ns) msg]\<rparr>))
            | None \<Rightarrow>
                map_option snd
                  (Write w msg
                     (c\<lparr>trace := trace c @ [Fired (namespace ns) msg],
                        connectedNamespaces :=
                          AList.delete (Namespace msg) (connectedNamespaces c)\<rparr>)))"
    using assms(1,3,5,6,8)
    by (simp add: replyDisconnect_def Namespace_conn_def fireEvent_def split: option.splits)
  have e: "handleMessage w c msg =
             Some (True, c\<lparr>trace := trace c @ [Fired (namespace ns) msg,
                              SockWrite (serializeMessage w (msg\<lparr>Err := Some e\<rparr>))]\<rparr>)"
    if "events ns msg = Some e"
      and "WriteText w (trace c @ [Fired (namespace ns) msg])
             (serializeMessage w (msg\<lparr>Err := Some e\<rparr>)) = None" for e
  proof -
    have "Write w (msg\<lparr>Err := Some e\<rparr>) (c\<lparr>trace := trace c @ [Fired (namespace ns) msg]\<rparr>)
        = Some (True, (c\<lparr>trace := trace c @ [Fired (namespace ns) msg]\<rparr>)
             \<lparr>trace := trace (c\<lparr>trace := trace c @ [Fired (namespace ns) msg]\<rparr>)
                 @ [SockWrite (serializeMessage w (msg\<lparr>Err := Some e\<rparr>))]\<rparr>)"
      using assms(2,4) that(2)
      by (intro Write_disconnect_sent) (simp_all add: IsClosed_def isDisconnect_def)
    with h r that(1) show ?thesis by simp
  qed
  have n: "handleMessage w c msg =
             Some (True, c\<lparr>trace := trace c @ [Fired (namespace ns) msg,
                              SockWrite (serializeMessage w msg)],
                            connectedNamespaces :=
                              AList.delete (Namespace msg) (connectedNamespaces c)\<rparr>)"
    if "events ns msg = None"
      and "WriteText w (trace c @ [Fired (namespace ns) msg]) (serializeMessage w msg) = None"
  proof -
    let ?c1 = "c\<lparr>trace := trace c @ [Fired (namespace ns) msg],
                 connectedNamespaces := AList.delete (Namespace msg) (connectedNamespaces c)\<rparr>"
    have "Write w msg ?c1
        = Some (True, ?c1\<lparr>trace := trace ?c1 @ [SockWrite (serializeMessage w msg)]\<rparr>)"
      using assms(2,4) that(2)
      by (intro Write_disconnect_sent) (simp_all add: IsClosed_def isDisconnect_def)
    with h r that(1) show ?thesis by simp
  qed
  from h r e n show ?thesis by blast
qed

theorem replyDisconnect_server_veto_witness:
  "handleMessage (ex_world sock_ok) ex_veto_conn
      (Message0\<lparr>Namespace := ''chat'', Event := OnNamespaceDisconnect, wait := ''7''\<rparr>)
     = Some (True, ex_veto_conn
         \<lparr>trace := [Fired ''chat''
                      (Message0\<lparr>Namespace := ''chat'', Event := OnNamespaceDisconnect, wait := ''7''\<rparr>),
                    SockWrite ''7;chat;;_OnNamespaceDisconnect;'']\<rparr>)
   \<and> handleMessage (ex_world sock_ok) ex_veto_conn
      (Message0\<lparr>Namespace := ''news'', Event := OnNamespaceDisconnect, wait := ''8''\<rparr>)
     = Some (True, ex_veto_conn
         \<lparr>trace := [Fired ''news''
                      (Message0\<lparr>Namespace := ''news'', Event := OnNamespaceDisconnect, wait := ''8''\<rparr>),
                    SockWrite ''8;news;;_OnNamespaceDisconnect;''],
          connectedNamespaces := [(''chat'', newNSConn ''chat'' (\<lambda>m. Some (OtherError ''stay'')))]\<rparr>)"
proof -
  let ?chat = "Message0\<lparr>Namespace := ''chat'', Event := OnNamespaceDisconnect, wait := ''7''\<rparr>"
  let ?news = "Message0\<lparr>Namespace := ''news'', Event := OnNamespaceDisconnect, wait := ''8''\<rparr>"
  have c: "\<not> IsClient ex_veto_conn" "\<not> IsClosed ex_veto_conn"
      "\<not> connectedNamespacesMutex ex_veto_conn"
    by (simp_all add: ex_veto_conn_def IsClient_def IsClosed_def ex_conn_def newConn_def)
  have m1: "Event ?chat = OnNamespaceDisconnect" "wait ?chat \<noteq> []" "\<not> isNoOp ?chat"
      "waitingMessages ex_veto_conn (wait ?chat) = None"
      "map_of (connectedNamespaces ex_veto_conn) (Namespace ?chat)
         = Some (newNSConn ''chat'' (\<lambda>m. Some (OtherError ''stay'')))"
    by (simp_all add: ex_veto_conn_def ex_conn_def newConn_def Message0_def)
  have m2: "Event ?news = OnNamespaceDisconnect" "wait ?news \<noteq> []" "\<not> isNoOp ?news"
      "waitingMessages ex_veto_conn (wait ?news) = None"
      "map_of (connectedNamespaces ex_veto_conn) (Namespace ?news)
         = Some (newNSConn ''news'' (\<lambda>m. None))"
    by (simp_all add: ex_veto_conn_def ex_conn_def newConn_def Message0_def)
  have p1: "events (newNSConn ''chat'' (\<lambda>m. Some (OtherError ''stay''))) ?chat
               = Some (OtherError ''stay'')
           \<and> WriteText (ex_world sock_ok)
               (trace ex_veto_conn
                  @ [Fired (namespace (newNSConn ''chat'' (\<lambda>m. Some (OtherError ''stay'')))) ?chat])
               (serializeMessage (ex_world sock_ok) (?chat\<lparr>Err := Some (OtherError ''stay'')\<rparr>))
             = None"
    by (simp add: newNSConn_def ex_world_def sock_ok_def)
  have p2: "events (newNSConn ''news'' (\<lambda>m. None)) ?news = None
           \<and> WriteText (ex_world sock_ok)
               (trace ex_veto_conn @ [Fired (namespace (newNSConn ''news'' (\<lambda>m. None))) ?news])
               (serializeMessage (ex_world sock_ok) ?news)
             = None"
    by (simp add: newNSConn_def ex_world_def sock_ok_def)
  note veto = replyDisconnect_server_veto [OF c m1, of "ex_world sock_ok",
      THEN conjunct2, THEN conjunct2, THEN conjunct1, rule_format, OF p1]
  note leave = replyDisconnect_server_veto [OF c m2, of "ex_world sock_ok",
      THEN conjunct2, THEN conjunct2, THEN conjunct2, rule_format, OF p2]
  from veto
  have "handleMessage (ex_world sock_ok) ex_veto_conn ?chat
     = Some (True, ex_veto_conn
         \<lparr>trace := [Fired ''chat'' ?chat, SockWrite ''7;chat;;_OnNamespaceDisconnect;'']\<rparr>)"
    by (simp add: ex_veto_conn_def ex_defs event_defs)
  moreover
  from leave
  have "handleMessage (ex_world sock_ok) ex_veto_conn ?news
     = Some (True, ex_veto_conn
         \<lparr>trace := [Fired ''news'' ?news, SockWrite ''8;news;;_OnNamespaceDisconnect;''],
          connectedNamespaces := [(''chat'', newNSConn ''chat'' (\<lambda>m. Some (OtherError ''stay'')))]\<rparr>)"
    by (simp add: ex_veto_conn_def ex_defs event_defs)
  ultimately show ?thesis by simp
qed

subsection \<open>DisconnectAll\<close>

lemma Write_cases:
  assumes "Write w msg c = Some (b, c')"
  obtains "c' = c"
  | "c' = c\<lparr>trace := trace c @ [SockWrite (serializeMessage w msg)]\<rparr>"
  | "\<not> IsClosed c"
    and "Close (c\<lparr>trace := trace c @ [SockWrite (serializeMessage w msg)]\<rparr>) = Some c'"
proof (cases "IsClosed c")
  case True
  with assms that(1) show ?thesis by (simp add: Write_def)
next
  case False
  show ?thesis
  proof (cases "Write_allowed msg c")
    case None
    with assms False show ?thesis by (simp add: Write_def)
  next
    case (Some ok)
    show ?thesis
    proof (cases ok)
      case False
      with assms \<open>\<not> IsClosed c\<close> Some that(1) show ?thesis by (simp add: Write_def)
    next
      case True
      show ?thesis
      proof (cases "WriteText w (trace c) (serializeMessage w msg)")
        case None
        with assms \<open>\<not> IsClosed c\<close> Some True that(2) show ?thesis
          by (simp add: Write_def Let_def)
      next
        case (Some err)
        with assms \<open>\<not> IsClosed c\<close> \<open>Write_allowed msg c = Some ok\<close> True that(2,3)
        show ?thesis
          by (cases "IsCloseError w err") (auto simp: Write_def Let_def split: option.splits)
      qed
    qed
  qed
qed

text \<open>While the caller holds the mutex, a write that returns has not closed the connection.\<close>

lemma Write_locked:
  assumes "connectedNamespacesMutex c" and "Write w msg c = Some (b, c')"
  shows "connectedNamespaces c' = connectedNamespaces c \<and> connectedNamespacesMutex c'"
  using assms(2)
proof (cases rule: Write_cases)
  case 1
  with assms(1) show ?thesis by simp
next
  case 2
  with assms(1) show ?thesis by simp
next
  case 3
  let ?c1 = "c\<lparr>trace := trace c @ [SockWrite (serializeMessage w msg)]\<rparr>"
  from 3(1) have "closed ?c1 = 0" by (simp add: IsClosed_def)
  from Close_open [OF this 3(2)] assms(1) show ?thesis by simp
qed

lemma Ask_locked:
  assumes "connectedNamespacesMutex c" and "Ask w env ctx msg c = Some (r, c')"
  shows "connectedNamespaces c' = connectedNamespaces c \<and> connectedNamespacesMutex c'"
proof (cases "IsClosed c \<or> deadline_passed ctx (now_deadline env)")
  case True
  with assms show ?thesis by (auto simp: Ask_def Let_def split: if_splits)
next
  case False
  let ?c1 = "c\<lparr>chans := Suc (chans c),
              waitingMessages := (waitingMessages c)(waitToken c (now env) \<mapsto> chans c)\<rparr>"
  from False assms(2) obtain b c2 where
    w: "Write w (msg\<lparr>wait := waitToken c (now env)\<rparr>) ?c1 = Some (b, c2)"
    and s: "c' = c2 \<or> Ask_select ctx (ready env) c2 = Some (r, c')"
    by (auto simp: Ask_def Let_def split: option.splits bool.splits)
  from assms(1) have "connectedNamespacesMutex ?c1" by simp
  from Write_locked [OF this w]
  have c2: "connectedNamespaces c2 = connectedNamespaces c \<and> connectedNamespacesMutex c2"
    by simp
  from s show ?thesis
  proof
    assume "c' = c2" with c2 show ?thesis by simp
  next
    assume "Ask_select ctx (ready env) c2 = Some (r, c')"
    then have "connectedNamespaces c' = connectedNamespaces c2
             \<and> connectedNamespacesMutex c' = connectedNamespacesMutex c2"
      by (auto simp: Ask_select_def split: selected.splits if_splits)
    with c2 show ?thesis by simp
  qed
qed

lemma askDisconnect_locked_error:
  assumes "connectedNamespacesMutex c"
    and "askDisconnect w env ctx msg False c = Some (Some e, c')"
  shows "connectedNamespaces c' = connectedNamespaces c \<and> connectedNamespacesMutex c'"
proof (cases "map_of (connectedNamespaces c) (Namespace msg)")
  case None
  with assms show ?thesis by (simp add: askDisconnect_def)
next
  case (Some ns)
  with assms(2) obtain r where "Ask w env ctx msg c = Some (r, c')"
    by (auto simp: askDisconnect_def split: option.splits prod.splits)
  from Ask_locked [OF assms(1) this] show ?thesis .
qed

lemma askDisconnect_locked_ok:
  assumes "connectedNamespacesMutex c"
    and "askDisconnect w env ctx msg False c = Some (None, c')"
  shows "connectedNamespaces c' = AList.delete (Namespace msg) (connectedNamespaces c)
       \<and> connectedNamespacesMutex c'"
proof (cases "map_of (connectedNamespaces c) (Namespace msg)")
  case None
  with assms show ?thesis by (simp add: askDisconnect_def)
next
  case (Some ns)
  with assms(2) obtain r c1 where a: "Ask w env ctx msg c = Some (r, c1)"
    and c': "connectedNamespaces c' = AList.delete (Namespace msg) (connectedNamespaces c1)
           \<and> connectedNamespacesMutex c' = connectedNamespacesMutex c1"
    by (auto simp: askDisconnect_def fireEvent_def split: option.splits prod.splits)
  from Ask_locked [OF assms(1) a] c' show ?thesis by simp
qed

lemma DisconnectAll_range_ok:
  assumes "connectedNamespacesMutex c"
    and "DisconnectAll_range w envs ctx ks c = Some (None, c')"
  shows "connectedNamespaces c' = filter (\<lambda>(k, _). k \<notin> set ks) (connectedNamespaces c)
       \<and> connectedNamespacesMutex c'"
  using assms
proof (induction ks arbitrary: c)
  case Nil
  then show ?case by simp
next
  case (Cons k ks)
  let ?msg = "Message0\<lparr>Event := OnNamespaceDisconnect, Namespace := k\<rparr>"
  from Cons.prems(2) obtain c1 where
    a: "askDisconnect w (envs k) ctx ?msg False c = Some (None, c1)"
    and r: "DisconnectAll_range w envs ctx ks c1 = Some (None, c')"
    by (auto split: option.splits prod.splits)
  from askDisconnect_locked_ok [OF Cons.prems(1) a]
  have c1: "connectedNamespaces c1 = AList.delete k (connectedNamespaces c)"
    and m: "connectedNamespacesMutex c1" by simp_all
  from Cons.IH [OF m r] have "connectedNamespaces c'
      = filter (\<lambda>(k, _). k \<notin> set ks) (AList.delete k (connectedNamespaces c))"
    and m': "connectedNamespacesMutex c'" by (simp_all add: c1)
  moreover have "filter (\<lambda>(k', _). k' \<notin> set ks) (AList.delete k (connectedNamespaces c))
      = filter (\<lambda>(k', _). k' \<notin> set (k # ks)) (connectedNamespaces c)"
    unfolding AList.delete_eq filter_filter by (rule filter_cong) auto
  ultimately show ?case by simp
qed

lemma DisconnectAll_range_append:
  "DisconnectAll_range w envs ctx (xs @ ys) c =
     (case DisconnectAll_range w envs ctx xs c of
        None \<Rightarrow> None
      | Some (Some e, c1) \<Rightarrow> Some (Some e, c1)
      | Some (None, c1) \<Rightarrow> DisconnectAll_range w envs ctx ys c1)"
  by (induction xs arbitrary: c) (auto split: option.splits prod.splits)

lemma filter_keys_suffix:
  assumes "distinct (map fst al)" and "map fst al = xs @ ys"
  shows "map fst (filter (\<lambda>(k, _). k \<notin> set xs) al) = ys"
  using assms
proof (induction xs arbitrary: al)
  case Nil
  then show ?case by simp
next
  case (Cons x xs)
  then obtain v al' where al: "al = (x, v) # al'" by (cases al) auto
  with Cons.prems have d: "distinct (map fst al')" and m: "map fst al' = xs @ ys"
    and x: "x \<notin> fst ` set al'" by auto
  have "filter (\<lambda>(k, _). k \<notin> set (x # xs)) al' = filter (\<lambda>(k, _). k \<notin> set xs) al'"
    by (rule filter_cong) (use x in force)+
  with Cons.IH [OF d m] show ?case by (simp add: al)
qed

text \<open>
  A write that the socket fails as closed never comes back inside \<^verbatim>\<open>DisconnectAll\<close>: \<^verbatim>\<open>Write\<close>
  calls \<^verbatim>\<open>Close\<close>, which asks for the mutex that \<^verbatim>\<open>DisconnectAll\<close> holds. So an
  \<^verbatim>\<open>askDisconnect\<close> that returns an error there has not closed the connection.
\<close>

lemma DisconnectAll_closed_socket_blocks:
  "DisconnectAll (ex_world sock_gone) ex_envs (Some \<lparr>deadline = None\<rparr>) (ex_conn None) = None"
  by (simp add: DisconnectAll_def askDisconnect_def Close_def run_defs ex_envs_def ex_defs
        event_defs)

text \<open>The call of \<^verbatim>\<open>Close\<close> that finds \<open>closed\<close> at 0 does not return to a caller that holds the mutex.\<close>

lemma Close_locked:
  assumes "closed c = 0" and "connectedNamespacesMutex c"
  shows "Close c = None"
  using assms by (simp add: Close_def)

text \<open>
  Claim C2, where the code departs from it. \<^verbatim>\<open>DisconnectAll\<close> on a client with \<open>chat\<close> and
  \<open>news\<close> connected takes the mutex and asks for \<open>chat\<close>; the socket fails the write as
  closed, and \<^verbatim>\<open>Write\<close> calls \<^verbatim>\<open>Close\<close>. It is the first \<^verbatim>\<open>Close\<close> of the connection
  (\<open>closed\<close> is 0) and both namespaces are connected, but it waits for the mutex that its
  own caller holds: no \<open>OnNamespaceDisconnect\<close> is fired, no map is emptied, and neither
  \<^verbatim>\<open>Close\<close> nor \<^verbatim>\<open>Write\<close> nor \<^verbatim>\<open>DisconnectAll\<close> returns. (\<^verbatim>\<open>askDisconnect\<close> is told by its
  \<open>lock\<close> argument not to take the mutex again under \<^verbatim>\<open>DisconnectAll\<close>; \<^verbatim>\<open>Close\<close> is not.)
\<close>

theorem Close_inside_DisconnectAll_blocks:
  "closed ((ex_conn None)\<lparr>connectedNamespacesMutex := True, chans := 1,
             waitingMessages := [''client_5'' \<mapsto> 0],
             trace := [SockWrite ''client_5;chat;;_OnNamespaceDisconnect;'']\<rparr>) = 0
   \<and> map fst (connectedNamespaces
         ((ex_conn None)\<lparr>connectedNamespacesMutex := True, chans := 1,
             waitingMessages := [''client_5'' \<mapsto> 0],
             trace := [SockWrite ''client_5;chat;;_OnNamespaceDisconnect;'']\<rparr>))
       = [''chat'', ''news'']
   \<and> Close ((ex_conn None)\<lparr>connectedNamespacesMutex := True, chans := 1,
             waitingMessages := [''client_5'' \<mapsto> 0],
             trace := [SockWrite ''client_5;chat;;_OnNamespaceDisconnect;'']\<rparr>) = None
   \<and> Write (ex_world sock_gone)
         (Message0\<lparr>Event := OnNamespaceDisconnect, Namespace := ''chat'', wait := ''client_5''\<rparr>)
         ((ex_conn None)\<lparr>connectedNamespacesMutex := True, chans := 1,
             waitingMessages := [''client_5'' \<mapsto> 0]\<rparr>) = None
   \<and> DisconnectAll (ex_world sock_gone) ex_envs (Some \<lparr>deadline = None\<rparr>) (ex_conn None) = None"
  by (simp add: DisconnectAll_def askDisconnect_def Close_def run_defs ex_envs_def ex_defs
        event_defs)

text \<open>
  Claim C10. \<^verbatim>\<open>DisconnectAll\<close> visits the connected namespaces in the order of the \<^verbatim>\<open>range\<close>.
  If the asks for the namespaces \<open>visited\<close> succeed and \<^verbatim>\<open>askDisconnect\<close> returns an error
  for the next one, \<open>k\<close>, then \<^verbatim>\<open>DisconnectAll\<close> returns that error at once, with the mutex
  released; the namespaces visited before are gone from \<open>connectedNamespaces\<close> and stay
  so, and \<open>k\<close> and the namespaces not yet visited are still connected.
\<close>

theorem DisconnectAll_error_not_atomic:
  assumes "\<not> connectedNamespacesMutex c" and "distinct (map fst (connectedNamespaces c))"
    and "map fst (connectedNamespaces c) = visited @ k # rest"
    and "DisconnectAll_range w envs ctx visited (c\<lparr>connectedNamespacesMutex := True\<rparr>)
           = Some (None, c1)"
    and "askDisconnect w (envs k) ctx (Message0\<lparr>Event := OnNamespaceDisconnect, Namespace := k\<rparr>)
           False c1 = Some (Some e, c2)"
  shows "DisconnectAll w envs ctx c = Some (Some e, c2\<lparr>connectedNamespacesMutex := False\<rparr>)
       \<and> connectedNamespaces c2
           = filter (\<lambda>(n, _). n \<notin> set visited) (connectedNamespaces c)
       \<and> map fst (connectedNamespaces c2) = k # rest"
proof -
  let ?c0 = "c\<lparr>connectedNamespacesMutex := True\<rparr>"
  have "connectedNamespacesMutex ?c0" by simp
  from DisconnectAll_range_ok [OF this assms(4)]
  have c1: "connectedNamespaces c1
              = filter (\<lambda>(n, _). n \<notin> set visited) (connectedNamespaces c)"
    and m1: "connectedNamespacesMutex c1" by simp_all
  from askDisconnect_locked_error [OF m1 assms(5)] c1
  have c2: "connectedNamespaces c2
              = filter (\<lambda>(n, _). n \<notin> set visited) (connectedNamespaces c)" by simp
  have "DisconnectAll_range w envs ctx (visited @ k # rest) ?c0 = Some (Some e, c2)"
    using assms(4,5) by (simp add: DisconnectAll_range_append)
  with assms(1,3)
  have "DisconnectAll w envs ctx c = Some (Some e, c2\<lparr>connectedNamespacesMutex := False\<rparr>)"
    by (simp add: DisconnectAll_def)
  moreover from filter_keys_suffix [OF assms(2,3)] c2
  have "map fst (connectedNamespaces c2) = k # rest" by simp
  ultimately show ?thesis using c2 by simp
qed

theorem DisconnectAll_error_not_atomic_witness:
  "DisconnectAll (ex_world sock_ok) ex_envs (Some \<lparr>deadline = None\<rparr>) (ex_conn None)
     = Some (Some DeadlineExceeded,
         (ex_conn None)
           \<lparr>chans := 2, waitingMessages := [''client_6'' \<mapsto> 1],
            connectedNamespaces := [(''news'', newNSConn ''news'' (\<lambda>m. None))],
            trace := [SockWrite ''client_5;chat;;_OnNamespaceDisconnect;'',
                      Fired ''chat'' (Message0\<lparr>Event := OnNamespaceDisconnect,
                                                Namespace := ''chat'', IsLocal := True\<rparr>),
                      SockWrite ''client_6;news;;_OnNamespaceDisconnect;'']\<rparr>)"
proof -
  let ?ctx = "Some \<lparr>deadline = None\<rparr>"
  let ?c1 = "(ex_conn None)
           \<lparr>connectedNamespacesMutex := True, chans := 1,
            connectedNamespaces := [(''news'', newNSConn ''news'' (\<lambda>m. None))],
            trace := [SockWrite ''client_5;chat;;_OnNamespaceDisconnect;'',
                      Fired ''chat'' (Message0\<lparr>Event := OnNamespaceDisconnect,
                                                Namespace := ''chat'', IsLocal := True\<rparr>)]\<rparr>"
  let ?c2 = "?c1\<lparr>chans := 2, waitingMessages := [''client_6'' \<mapsto> 1],
            trace := [SockWrite ''client_5;chat;;_OnNamespaceDisconnect;'',
                      Fired ''chat'' (Message0\<lparr>Event := OnNamespaceDisconnect,
                                                Namespace := ''chat'', IsLocal := True\<rparr>),
                      SockWrite ''client_6;news;;_OnNamespaceDisconnect;'']\<rparr>"
  have h1: "\<not> connectedNamespacesMutex (ex_conn None)"
    and h2: "distinct (map fst (connectedNamespaces (ex_conn None)))"
    and h3: "map fst (connectedNamespaces (ex_conn None)) = [''chat''] @ ''news'' # []"
    by (simp_all add: ex_conn_def newConn_def)
  have h4: "DisconnectAll_range (ex_world sock_ok) ex_envs ?ctx [''chat'']
              ((ex_conn None)\<lparr>connectedNamespacesMutex := True\<rparr>) = Some (None, ?c1)"
    by (simp add: askDisconnect_def run_defs ex_envs_def ex_defs event_defs)
  have h5: "askDisconnect (ex_world sock_ok) (ex_envs ''news'') ?ctx
              (Message0\<lparr>Event := OnNamespaceDisconnect, Namespace := ''news''\<rparr>) False ?c1
            = Some (Some DeadlineExceeded, ?c2)"
    by (simp add: askDisconnect_def run_defs ex_envs_def ex_defs event_defs)
  from DisconnectAll_error_not_atomic [OF h1 h2 h3 h4 h5] show ?thesis
    by (simp add: ex_conn_def newConn_def)
qed

subsection \<open>The backlog of the reader\<close>

lemma reader_frame_preack:
  assumes "\<not> isAcknowledged c" and "\<not> HasPrefix b ackBinary"
  shows "reader_frame w b c queue =
           Some (Reading c (queue @ filter (\<lambda>m. \<not> isInvalid m) [deserializeMessage w b]))"
  using assms by (simp add: reader_frame_def Let_def)

lemma reader_frame_server_ack:
  assumes "\<not> isAcknowledged c" and "HasPrefix b ackBinary"
    and "\<not> IsClient c" and "length b = length ackBinary"
  shows "reader_frame w b c queue =
           Some (Reading (c\<lparr>trace := trace c @ [SockWrite (ackBinary @ cid c)]\<rparr>) queue)"
  using assms by (simp add: reader_frame_def)

text \<open>
  The frames that leave \<open>acknowledged\<close> at 0: those that do not start with \<open>ack\<close>, and on
  the server side the frame \<open>ack\<close> itself, which is answered with \<open>ack\<close> and the id. They
  change nothing of the connection but the trace, and nothing of the queue but its end.
\<close>

lemma reader_loop_preack:
  assumes "\<not> isAcknowledged c"
    and "\<forall>b\<in>set fs. HasPrefix b ackBinary \<longrightarrow> \<not> IsClient c \<and> length b = length ackBinary"
  shows "reader_loop w (map Frame fs @ rest) c queue =
           reader_loop w rest
             (c\<lparr>trace := trace c @ map (\<lambda>b. SockWrite (ackBinary @ cid c))
                                      (filter (\<lambda>b. HasPrefix b ackBinary) fs)\<rparr>)
             (queue @ filter (\<lambda>m. \<not> isInvalid m)
                        (map (deserializeMessage w)
                           (filter (\<lambda>b. \<not> HasPrefix b ackBinary) fs)))"
  using assms
proof (induction fs arbitrary: c queue)
  case Nil
  show ?case by simp
next
  case (Cons b fs)
  show ?case
  proof (cases "HasPrefix b ackBinary")
    case False
    from Cons.prems(2) have fs: "\<forall>b\<in>set fs. HasPrefix b ackBinary
        \<longrightarrow> \<not> IsClient c \<and> length b = length ackBinary" by simp
    show ?thesis
      by (simp add: False reader_frame_preack [OF Cons.prems(1) False]
            Cons.IH [OF Cons.prems(1) fs])
  next
    case True
    with Cons.prems(2) have s: "\<not> IsClient c" and l: "length b = length ackBinary"
      by simp_all
    let ?c1 = "c\<lparr>trace := trace c @ [SockWrite (ackBinary @ cid c)]\<rparr>"
    have na: "\<not> isAcknowledged ?c1" using Cons.prems(1) by (simp add: isAcknowledged_def)
    from Cons.prems(2) have fs: "\<forall>b\<in>set fs. HasPrefix b ackBinary
        \<longrightarrow> \<not> IsClient ?c1 \<and> length b = length ackBinary"
      by (simp add: IsClient_def)
    show ?thesis
      by (simp add: True reader_frame_server_ack [OF Cons.prems(1) True s l]
            Cons.IH [OF na fs])
  qed
qed

lemma reader_frame_ack:
  assumes "\<not> isAcknowledged c" and "HasPrefix a ackBinary"
    and "IsClient c \<or> length a \<noteq> length ackBinary"
  shows "reader_frame w a c queue =
           map_option (\<lambda>c'. Reading c' [])
             (handleQueue w queue
                (if IsClient c
                 then c\<lparr>cid := drop (length ackBinary) a, acknowledged := 1,
                        trace := trace c @ [SockWrite ackOKBinary]\<rparr>
                 else c\<lparr>acknowledged := 1\<rparr>))"
  using assms by (auto simp: reader_frame_def Let_def)

lemma handleQueue_append:
  "handleQueue w (q1 @ q2) c =
     (case handleQueue w q1 c of None \<Rightarrow> None | Some c1 \<Rightarrow> handleQueue w q2 c1)"
  by (induction q1 arbitrary: c) (auto split: option.splits)

lemma handleQueue_snoc:
  "handleQueue w (queue @ [msg]) c =
     (case handleQueue w queue c of
        None \<Rightarrow> None
      | Some c1 \<Rightarrow> map_option snd (handleMessage w c1 msg))"
  by (auto simp: handleQueue_append split: option.splits)

text \<open>
  Claim C3, as amended. Take any frames \<open>fs\<close> read while \<open>acknowledged\<close> is 0 that leave it
  at 0: frames that do not start with \<open>ack\<close>, and on the server side the frame \<open>ack\<close>, in
  any order. Those that do not start with \<open>ack\<close> and parse to a valid message are queued,
  in the order of arrival; one that parses to an invalid message is dropped; the server
  answers each \<open>ack\<close> with \<open>ack\<close> and its id and keeps the queue; nothing else happens to
  the connection. The frame that sets \<open>acknowledged\<close> (any frame that starts with \<open>ack\<close>
  on the client side, any such frame other than \<open>ack\<close> on the server side) is followed at
  once by \<^verbatim>\<open>handleQueue\<close> on the queued messages, and \<^verbatim>\<open>handleQueue\<close> handles a message
  that arrived later after the ones that arrived before it, on the connection they left.
  The queue is empty afterwards.
\<close>

theorem reader_backlog_fifo:
  assumes "\<not> IsClosed c" and "acknowledged c = 0"
    and "\<forall>b\<in>set fs. HasPrefix b ackBinary \<longrightarrow> \<not> IsClient c \<and> length b = length ackBinary"
    and "HasPrefix a ackBinary" and "IsClient c \<or> length a \<noteq> length ackBinary"
    and "c1 = c\<lparr>trace := trace c @ map (\<lambda>b. SockWrite (ackBinary @ cid c))
                                       (filter (\<lambda>b. HasPrefix b ackBinary) fs)\<rparr>"
    and "backlog = filter (\<lambda>m. \<not> isInvalid m)
                     (map (deserializeMessage w) (filter (\<lambda>b. \<not> HasPrefix b ackBinary) fs))"
  shows "startReader w (map Frame fs) c = Some (Reading c1 backlog)
       \<and> startReader w (map Frame (fs @ [a])) c =
           map_option (\<lambda>c'. Reading c' [])
             (handleQueue w backlog
                (if IsClient c
                 then c1\<lparr>cid := drop (length ackBinary) a, acknowledged := 1,
                         trace := trace c1 @ [SockWrite ackOKBinary]\<rparr>
                 else c1\<lparr>acknowledged := 1\<rparr>))
       \<and> (\<forall>queue msg c0. handleQueue w (queue @ [msg]) c0 =
             (case handleQueue w queue c0 of
                None \<Rightarrow> None
              | Some c2 \<Rightarrow> map_option snd (handleMessage w c2 msg)))"
proof -
  from assms(2) have na: "\<not> isAcknowledged c" by (simp add: isAcknowledged_def)
  have na1: "\<not> isAcknowledged c1" using na assms(6) by (simp add: isAcknowledged_def)
  have ic: "IsClient c1 = IsClient c" using assms(6) by (simp add: IsClient_def)
  have 1: "reader_loop w (map Frame fs) c [] = Some (Reading c1 backlog)"
    using reader_loop_preack [OF na assms(3), of w "[]" "[]"] assms(6,7) by simp
  have "reader_loop w (map Frame (fs @ [a])) c [] = reader_loop w [Frame a] c1 backlog"
    using reader_loop_preack [OF na assms(3), of w "[Frame a]" "[]"] assms(6,7) by simp
  also have "\<dots> = map_option (\<lambda>c'. Reading c' [])
             (handleQueue w backlog
                (if IsClient c
                 then c1\<lparr>cid := drop (length ackBinary) a, acknowledged := 1,
                         trace := trace c1 @ [SockWrite ackOKBinary]\<rparr>
                 else c1\<lparr>acknowledged := 1\<rparr>))"
    using assms(5)
    by (simp add: reader_frame_ack [OF na1 assms(4)] ic split: option.splits)
  finally have 2: "reader_loop w (map Frame (fs @ [a])) c [] =
      map_option (\<lambda>c'. Reading c' [])
             (handleQueue w backlog
                (if IsClient c
                 then c1\<lparr>cid := drop (length ackBinary) a, acknowledged := 1,
                         trace := trace c1 @ [SockWrite ackOKBinary]\<rparr>
                 else c1\<lparr>acknowledged := 1\<rparr>))" .
  have 3: "startReader w reads c = reader_loop w reads c []"
    if "\<forall>c'. reader_loop w reads c [] \<noteq> Some (Returned c')" for reads
    using assms(1) that
    by (cases "reader_loop w reads c []") (auto simp: startReader_def split: reader.splits)
  have "startReader w (map Frame fs) c = Some (Reading c1 backlog)"
    using 3 [of "map Frame fs"] 1 by simp
  moreover have "startReader w (map Frame (fs @ [a])) c =
      map_option (\<lambda>c'. Reading c' [])
             (handleQueue w backlog
                (if IsClient c
                 then c1\<lparr>cid := drop (length ackBinary) a, acknowledged := 1,
                         trace := trace c1 @ [SockWrite ackOKBinary]\<rparr>
                 else c1\<lparr>acknowledged := 1\<rparr>))"
    using 3 [of "map Frame (fs @ [a])"] 2
    by (cases "handleQueue w backlog
                (if IsClient c
                 then c1\<lparr>cid := drop (length ackBinary) a, acknowledged := 1,
                         trace := trace c1 @ [SockWrite ackOKBinary]\<rparr>
                 else c1\<lparr>acknowledged := 1\<rparr>)") simp_all
  ultimately show ?thesis using handleQueue_snoc by blast
qed

theorem reader_backlog_fifo_witness:
  "startReader (ex_world sock_ok) (map Frame [''+chat'', ''ack'', [], ''hello'']) ex_fresh_server
     = Some (Reading (ex_fresh_server\<lparr>trace := [SockWrite ''ackc1'']\<rparr>)
         [Message0\<lparr>Namespace := ''chat'', Event := OnNamespaceConnect, wait := ''1''\<rparr>,
          Message0\<lparr>Namespace := ''chat'', Event := ''say'', Body := ''hello''\<rparr>])
   \<and> startReader (ex_world sock_ok)
         (map Frame ([''+chat'', ''ack'', [], ''hello''] @ [''ack_ok''])) ex_fresh_server
     = Some (Reading
         (ex_fresh_server\<lparr>acknowledged := 1,
            connectedNamespaces := [(''chat'', newNSConn ''chat'' (\<lambda>m. None))],
            trace := [SockWrite ''ackc1'',
              Fired ''chat'' (Message0\<lparr>Namespace := ''chat'', Event := OnNamespaceConnect,
                                        wait := ''1''\<rparr>),
              SockWrite ''1;chat;;_OnNamespaceConnect;'',
              Fired ''chat'' (Message0\<lparr>Namespace := ''chat'', Event := OnNamespaceConnected,
                                        wait := ''1''\<rparr>),
              Fired ''chat'' (Message0\<lparr>Namespace := ''chat'', Event := ''say'',
                                        Body := ''hello''\<rparr>)]\<rparr>) [])
   \<and> startReader (ex_world sock_ok) (map Frame ([''+chat'', [], ''hello''] @ [''ackc1''])) ex_fresh
     = Some (Reading
         (ex_fresh\<lparr>cid := ''c1'', acknowledged := 1,
            connectedNamespaces := [(''chat'', newNSConn ''chat'' (\<lambda>m. None))],
            trace := [SockWrite ''ack_ok'',
              Fired ''chat'' (Message0\<lparr>Namespace := ''chat'', Event := OnNamespaceConnect,
                                        wait := ''1''\<rparr>),
              SockWrite ''1;chat;;_OnNamespaceConnect;'',
              Fired ''chat'' (Message0\<lparr>Namespace := ''chat'', Event := OnNamespaceConnected,
                                        wait := ''1''\<rparr>),
              Fired ''chat'' (Message0\<lparr>Namespace := ''chat'', Event := ''say'',
                                        Body := ''hello''\<rparr>)]\<rparr>) [])"
proof -
  let ?w = "ex_world sock_ok"
  let ?q = "[Message0\<lparr>Namespace := ''chat'', Event := OnNamespaceConnect, wait := ''1''\<rparr>,
             Message0\<lparr>Namespace := ''chat'', Event := ''say'', Body := ''hello''\<rparr>]"
  let ?s1 = "ex_fresh_server\<lparr>trace := [SockWrite ''ackc1'']\<rparr>"
  have hs: "\<not> IsClosed ex_fresh_server" "acknowledged ex_fresh_server = 0"
      "\<forall>b\<in>set [''+chat'', ''ack'', [], ''hello'']. HasPrefix b ackBinary
         \<longrightarrow> \<not> IsClient ex_fresh_server \<and> length b = length ackBinary"
      "HasPrefix ''ack_ok'' ackBinary"
      "IsClient ex_fresh_server \<or> length ''ack_ok'' \<noteq> length ackBinary"
      "?s1 = ex_fresh_server\<lparr>trace := trace ex_fresh_server
           @ map (\<lambda>b. SockWrite (ackBinary @ cid ex_fresh_server))
               (filter (\<lambda>b. HasPrefix b ackBinary) [''+chat'', ''ack'', [], ''hello''])\<rparr>"
      "?q = filter (\<lambda>m. \<not> isInvalid m)
              (map (deserializeMessage ?w)
                 (filter (\<lambda>b. \<not> HasPrefix b ackBinary) [''+chat'', ''ack'', [], ''hello'']))"
    by (simp_all add: ex_fresh_server_def newConn_def IsClosed_def IsClient_def HasPrefix_def
          ackBinary_def ex_world_def ex_deserialize_def Message0_def)
  have hc: "\<not> IsClosed ex_fresh" "acknowledged ex_fresh = 0"
      "\<forall>b\<in>set [''+chat'', [], ''hello'']. HasPrefix b ackBinary
         \<longrightarrow> \<not> IsClient ex_fresh \<and> length b = length ackBinary"
      "HasPrefix ''ackc1'' ackBinary"
      "IsClient ex_fresh \<or> length ''ackc1'' \<noteq> length ackBinary"
      "ex_fresh = ex_fresh\<lparr>trace := trace ex_fresh
           @ map (\<lambda>b. SockWrite (ackBinary @ cid ex_fresh))
               (filter (\<lambda>b. HasPrefix b ackBinary) [''+chat'', [], ''hello''])\<rparr>"
      "?q = filter (\<lambda>m. \<not> isInvalid m)
              (map (deserializeMessage ?w)
                 (filter (\<lambda>b. \<not> HasPrefix b ackBinary) [''+chat'', [], ''hello'']))"
    by (simp_all add: ex_fresh_def newConn_def IsClosed_def IsClient_def HasPrefix_def
          ackBinary_def ex_world_def ex_deserialize_def Message0_def)
  have ns: "\<not> IsClient ex_fresh_server"
    by (simp add: IsClient_def ex_fresh_server_def newConn_def)
  have ic: "IsClient ex_fresh" by (simp add: IsClient_def ex_fresh_def newConn_def)
  have rs: "handleQueue ?w ?q (?s1\<lparr>acknowledged := 1\<rparr>)
     = Some (ex_fresh_server\<lparr>acknowledged := 1,
            connectedNamespaces := [(''chat'', newNSConn ''chat'' (\<lambda>m. None))],
            trace := [SockWrite ''ackc1'',
              Fired ''chat'' (Message0\<lparr>Namespace := ''chat'', Event := OnNamespaceConnect,
                                        wait := ''1''\<rparr>),
              SockWrite ''1;chat;;_OnNamespaceConnect;'',
              Fired ''chat'' (Message0\<lparr>Namespace := ''chat'', Event := OnNamespaceConnected,
                                        wait := ''1''\<rparr>),
              Fired ''chat'' (Message0\<lparr>Namespace := ''chat'', Event := ''say'',
                                        Body := ''hello''\<rparr>)]\<rparr>)"
    by (simp add: handleMessage_def dispatch_def replyConnect_def tryNamespace_def run_defs
          ex_fresh_server_def ex_defs event_defs)
  have rc: "handleQueue ?w ?q
         (ex_fresh\<lparr>cid := drop (length ackBinary) ''ackc1'', acknowledged := 1,
                    trace := trace ex_fresh @ [SockWrite ackOKBinary]\<rparr>)
     = Some (ex_fresh\<lparr>cid := ''c1'', acknowledged := 1,
            connectedNamespaces := [(''chat'', newNSConn ''chat'' (\<lambda>m. None))],
            trace := [SockWrite ''ack_ok'',
              Fired ''chat'' (Message0\<lparr>Namespace := ''chat'', Event := OnNamespaceConnect,
                                        wait := ''1''\<rparr>),
              SockWrite ''1;chat;;_OnNamespaceConnect;'',
              Fired ''chat'' (Message0\<lparr>Namespace := ''chat'', Event := OnNamespaceConnected,
                                        wait := ''1''\<rparr>),
              Fired ''chat'' (Message0\<lparr>Namespace := ''chat'', Event := ''say'',
                                        Body := ''hello''\<rparr>)]\<rparr>)"
    by (simp add: handleMessage_def dispatch_def replyConnect_def tryNamespace_def run_defs
          ex_fresh_def ackBinary_def ackOKBinary_def ex_defs event_defs)
  note ts = reader_backlog_fifo [OF hs]
  note tc = reader_backlog_fifo [OF hc]
  note s1 = ts [THEN conjunct1]
  note s2 = ts [THEN conjunct2, THEN conjunct1, unfolded if_not_P [OF ns] rs option.map]
  note c2 = tc [THEN conjunct2, THEN conjunct1, unfolded if_P [OF ic] rc option.map]
  show ?thesis by (intro conjI) (rule s1, rule s2, rule c2)
qed

text \<open>
  Claim C3 as stated fails: an empty frame is neither \<open>ack\<close> nor \<open>ack_ok\<close>, and it is not
  appended to the queue.
\<close>

theorem reader_invalid_frame_counterexample:
  "\<not> HasPrefix [] ackBinary \<and> [] \<noteq> ackBinary \<and> [] \<noteq> ackOKBinary
   \<and> acknowledged ex_fresh = 0
   \<and> startReader (ex_world sock_ok) [Frame []] ex_fresh = Some (Reading ex_fresh [])"
  by (simp add: startReader_def reader_frame_def HasPrefix_def ackBinary_def ackOKBinary_def
        isAcknowledged_def IsClosed_def ex_fresh_def ex_defs)

end
